theory Spec2Isabelle
  imports Complex_Main "HOL-Library.AList"
begin

section \<open>Shared conventions\<close>

text \<open>
  The development embeds the resilience layer of the startup-sentiment server: the result
  cache, the model rotator, the rate-limited queue, the batch sentiment engine, the
  sentiment aggregation and the Temporal workflow.

  JavaScript numbers are modelled by \<open>rat\<close> where the code computes with them (finite
  values, exact arithmetic; the code only adds, subtracts, multiplies by constants and
  compares), and by \<open>jsnum\<close> where \<open>NaN\<close> and \<open>Infinity\<close> arise. \<open>Date.now()\<close> is a
  parameter \<open>now\<close> of every operation that reads the clock. Timers are not run by the
  model: what a timer's callback does is a function of its own (\<open>cleanup\<close>, \<open>decay_tick\<close>,
  \<open>fire_timer\<close>), applied when the timer fires.
  A promise that rejects or a statement that throws is the value \<open>Throws msg\<close>, where
  \<open>msg\<close> is the \<open>message\<close> of the thrown \<open>Error\<close>; where the code inspects the error
  further (the queue and the batch engine), it is \<open>Fail error\<close> with the error itself.
\<close>

datatype 'a outcome = Returns 'a | Throws string

section \<open>The cache (services/cache.ts)\<close>

record 'v CacheItem =
  item_value :: 'v
  expiry :: rat

record 'v SimpleCache =
  cache :: "string \<rightharpoonup> 'v CacheItem"
  defaultTTL :: rat

text \<open>\<open>constructor(defaultTTLSeconds = 300)\<close>: the default is stored in milliseconds.\<close>

definition SimpleCache_new :: "rat \<Rightarrow> 'v SimpleCache" where
  "SimpleCache_new defaultTTLSeconds =
     \<lparr>cache = Map.empty, defaultTTL = defaultTTLSeconds * 1000\<rparr>"

text \<open>
  \<open>ttlSeconds || this.defaultTTL / 1000\<close>: an omitted argument (\<open>None\<close>) and the falsy
  number \<open>0\<close> both select the default.
\<close>

definition ttl_or_default :: "rat option \<Rightarrow> rat \<Rightarrow> rat" where
  "ttl_or_default ttlSeconds dflt =
     (case ttlSeconds of
        None \<Rightarrow> dflt / 1000
      | Some t \<Rightarrow> if t = 0 then dflt / 1000 else t)"

definition cache_set :: "rat \<Rightarrow> string \<Rightarrow> 'v \<Rightarrow> rat option \<Rightarrow> 'v SimpleCache \<Rightarrow> 'v SimpleCache" where
  "cache_set now key v ttlSeconds c =
     (let ttl = ttl_or_default ttlSeconds (defaultTTL c) * 1000
      in c\<lparr>cache := (cache c)(key \<mapsto> \<lparr>item_value = v, expiry = now + ttl\<rparr>)\<rparr>)"

text \<open>\<open>get\<close> returns the value (\<open>None\<close> is \<open>null\<close>) and the cache after the lazy eviction.\<close>

definition cache_get :: "rat \<Rightarrow> string \<Rightarrow> 'v SimpleCache \<Rightarrow> 'v option \<times> 'v SimpleCache" where
  "cache_get now key c =
     (case cache c key of
        None \<Rightarrow> (None, c)
      | Some item \<Rightarrow>
          if now > expiry item then (None, c\<lparr>cache := (cache c)(key := None)\<rparr>)
          else (Some (item_value item), c))"

definition cache_delete :: "string \<Rightarrow> 'v SimpleCache \<Rightarrow> 'v SimpleCache" where
  "cache_delete key c = c\<lparr>cache := (cache c)(key := None)\<rparr>"

definition cache_clear :: "'v SimpleCache \<Rightarrow> 'v SimpleCache" where
  "cache_clear c = c\<lparr>cache := Map.empty\<rparr>"

text \<open>The sweep of the one-minute interval timer.\<close>

definition cleanup :: "rat \<Rightarrow> 'v SimpleCache \<Rightarrow> 'v SimpleCache" where
  "cleanup now c =
     c\<lparr>cache := (\<lambda>key. case cache c key of
                        None \<Rightarrow> None
                      | Some item \<Rightarrow> if now > expiry item then None else Some item)\<rparr>"

definition sentimentCache :: "'v SimpleCache" where
  "sentimentCache = SimpleCache_new 600"

section \<open>The model rotator (services/model-rotator.ts)\<close>

record ModelStats =
  requestCount :: nat
  lastRequestTime :: rat
  recentErrors :: rat
  isAvailable :: bool

text \<open>
  \<open>models\<close> is a JavaScript \<open>Map\<close>: an association list in insertion order, written with
  \<open>AList.update\<close> (an existing key keeps its place, a new key goes to the end).
\<close>

record ModelRotator =
  models :: "(string \<times> ModelStats) list"
  currentIndex :: nat
  modelList :: "string list"

definition fresh_stats :: ModelStats where
  "fresh_stats = \<lparr>requestCount = 0, lastRequestTime = 0, recentErrors = 0, isAvailable = True\<rparr>"

definition ModelRotator_new :: "string list \<Rightarrow> ModelRotator" where
  "ModelRotator_new ms =
     \<lparr>models = fold (\<lambda>model acc. AList.update model fresh_stats acc) ms [],
      currentIndex = 0,
      modelList = ms\<rparr>"

text \<open>The callback of the one-minute interval timer set up by the constructor.\<close>

definition decay_stats :: "ModelStats \<Rightarrow> ModelStats" where
  "decay_stats stats =
     (let e = max 0 (recentErrors stats - 1)
      in stats\<lparr>recentErrors := e, isAvailable := (if e = 0 then True else isAvailable stats)\<rparr>)"

definition decay_tick :: "ModelRotator \<Rightarrow> ModelRotator" where
  "decay_tick r = r\<lparr>models := map (\<lambda>(model, stats). (model, decay_stats stats)) (models r)\<rparr>"

text \<open>
  The \<open>for\<close> loop of \<open>getNextModel\<close> over the remaining values of \<open>i\<close>. It yields the
  chosen model with the new \<open>currentIndex\<close>, \<open>None\<close> when no model qualifies, and throws
  where \<open>this.models.get(model)!\<close> is \<open>undefined\<close> and its field is read.
\<close>

fun scan :: "rat \<Rightarrow> ModelRotator \<Rightarrow> nat list \<Rightarrow> (string \<times> nat) option outcome" where
  "scan now r [] = Returns None"
| "scan now r (i # rest) =
     (let index = (currentIndex r + i) mod length (modelList r);
          model = modelList r ! index
      in case map_of (models r) model of
           None \<Rightarrow> Throws ''Cannot read properties of undefined''
         | Some stats \<Rightarrow>
             (let timeSinceLastRequest = now - lastRequestTime stats
              in if isAvailable stats \<and> timeSinceLastRequest > 1000
                 then Returns (Some (model, (index + 1) mod length (modelList r)))
                 else scan now r rest))"

text \<open>
  The fall-back of \<open>getNextModel\<close>: \<open>bestModel\<close> starts as \<open>modelList[0]\<close> (\<open>undefined\<close>,
  here \<open>None\<close>, for an empty list) and \<open>minErrors\<close> as \<open>Infinity\<close> (here \<open>None\<close>); the
  \<open>forEach\<close> visits the map in insertion order and replaces both on a strictly smaller count.
\<close>

definition least_step :: "string \<times> ModelStats \<Rightarrow> string option \<times> rat option \<Rightarrow> string option \<times> rat option" where
  "least_step entry acc =
     (case entry of (model, stats) \<Rightarrow>
        (case acc of (bestModel, minErrors) \<Rightarrow>
           if (case minErrors of None \<Rightarrow> True | Some m \<Rightarrow> recentErrors stats < m)
           then (Some model, Some (recentErrors stats))
           else (bestModel, minErrors)))"

definition least_errors :: "ModelRotator \<Rightarrow> string option" where
  "least_errors r =
     fst (fold least_step (models r)
            (case modelList r of [] \<Rightarrow> None | m # _ \<Rightarrow> Some m, None))"

text \<open>\<open>getNextModel\<close>: the model returned (\<open>None\<close> is \<open>undefined\<close>) and the rotator after it.\<close>

definition getNextModel :: "rat \<Rightarrow> ModelRotator \<Rightarrow> string option outcome \<times> ModelRotator" where
  "getNextModel now r =
     (case scan now r [0..<length (modelList r)] of
        Throws e \<Rightarrow> (Throws e, r)
      | Returns (Some (model, idx)) \<Rightarrow> (Returns (Some model), r\<lparr>currentIndex := idx\<rparr>)
      | Returns None \<Rightarrow> (Returns (least_errors r), r))"

definition record_stats :: "rat \<Rightarrow> bool \<Rightarrow> ModelStats \<Rightarrow> ModelStats" where
  "record_stats now success stats =
     (let stats1 = stats\<lparr>requestCount := requestCount stats + 1, lastRequestTime := now\<rparr>
      in if \<not> success
         then (let e = recentErrors stats1 + 1
               in stats1\<lparr>recentErrors := e,
                         isAvailable := (if e \<ge> 3 then False else isAvailable stats1)\<rparr>)
         else stats1\<lparr>recentErrors := max 0 (recentErrors stats1 - 1 / 2)\<rparr>)"

definition recordRequest :: "rat \<Rightarrow> string \<Rightarrow> bool \<Rightarrow> ModelRotator \<Rightarrow> ModelRotator" where
  "recordRequest now model success r =
     (case map_of (models r) model of
        None \<Rightarrow> r
      | Some stats \<Rightarrow> r\<lparr>models := AList.update model (record_stats now success stats) (models r)\<rparr>)"

definition claude_id :: string where
  "claude_id = ''anthropic.claude-3-5-sonnet-20240620-v1:0''"

definition mistral_id :: string where
  "mistral_id = ''mistral.mistral-large-2402-v1:0''"

definition sentimentModelRotator :: ModelRotator where
  "sentimentModelRotator = ModelRotator_new [claude_id, mistral_id]"

text \<open>
  What happens to a rotator between two observations: a recorded request, a tick of the
  decay timer, or a call of \<open>getNextModel\<close> (whose result is dropped here).
\<close>

datatype rotator_event = Record rat string bool | Tick | GetNext rat

fun apply_event :: "rotator_event \<Rightarrow> ModelRotator \<Rightarrow> ModelRotator" where
  "apply_event (Record now model success) r = recordRequest now model success r"
| "apply_event Tick r = decay_tick r"
| "apply_event (GetNext now) r = snd (getNextModel now r)"

definition run_events :: "rotator_event list \<Rightarrow> ModelRotator \<Rightarrow> ModelRotator" where
  "run_events es r = fold apply_event es r"

fun is_failure_of :: "string \<Rightarrow> rotator_event \<Rightarrow> bool" where
  "is_failure_of m (Record now model success) = (model = m \<and> \<not> success)"
| "is_failure_of m Tick = False"
| "is_failure_of m (GetNext now) = False"

definition ticks :: "rotator_event list \<Rightarrow> nat" where
  "ticks es = length (filter (\<lambda>e. e = Tick) es)"

definition stats_of :: "ModelRotator \<Rightarrow> string \<Rightarrow> ModelStats option" where
  "stats_of r m = map_of (models r) m"

text \<open>
  The effect of one event on the statistics of model \<open>m\<close>, and measures of an event list
  used to state recovery.
\<close>

fun on_stats :: "string \<Rightarrow> rotator_event \<Rightarrow> ModelStats \<Rightarrow> ModelStats" where
  "on_stats m (Record now model success) st = (if model = m then record_stats now success st else st)"
| "on_stats m Tick st = decay_stats st"
| "on_stats m (GetNext now) st = st"

fun is_success_of :: "string \<Rightarrow> rotator_event \<Rightarrow> bool" where
  "is_success_of m (Record now model success) = (model = m \<and> success)"
| "is_success_of m Tick = False"
| "is_success_of m (GetNext now) = False"

definition successes :: "string \<Rightarrow> rotator_event list \<Rightarrow> nat" where
  "successes m es = length (filter (is_success_of m) es)"

text \<open>
  \<open>quarantined\<close>: the model is flagged unavailable and its count is at the threshold or above.
  \<open>recovered\<close>: the model is available with a count of zero.
\<close>

definition quarantined :: "string \<Rightarrow> ModelRotator \<Rightarrow> bool" where
  "quarantined m r =
     (case stats_of r m of None \<Rightarrow> False | Some st \<Rightarrow> \<not> isAvailable st \<and> 3 \<le> recentErrors st)"

definition recovered :: "string \<Rightarrow> ModelRotator \<Rightarrow> bool" where
  "recovered m r =
     (case stats_of r m of None \<Rightarrow> False | Some st \<Rightarrow> isAvailable st \<and> recentErrors st = 0)"

definition errors_of :: "ModelRotator \<Rightarrow> string \<Rightarrow> rat option" where
  "errors_of r m = map_option recentErrors (stats_of r m)"

section \<open>Batch sizing (tools/sentiment-batch.ts)\<close>

text \<open>
  The numbers of \<open>getOptimalBatchSize\<close> leave the finite range: \<open>0 / 0\<close> is \<open>NaN\<close> and
  \<open>10000 / 0\<close> is \<open>Infinity\<close>. They are modelled with these values made explicit; finite
  values are exact rationals (no operand here is a negative zero).
\<close>

datatype jsnum = Num rat | PosInf | NegInf | NaN

fun js_div :: "jsnum \<Rightarrow> jsnum \<Rightarrow> jsnum" where
  "js_div (Num a) (Num b) =
     (if b = 0 then (if a = 0 then NaN else if 0 < a then PosInf else NegInf) else Num (a / b))"
| "js_div NaN y = NaN"
| "js_div x NaN = NaN"
| "js_div (Num a) y = Num 0"
| "js_div PosInf (Num b) = (if 0 \<le> b then PosInf else NegInf)"
| "js_div NegInf (Num b) = (if 0 \<le> b then NegInf else PosInf)"
| "js_div x y = NaN"

fun js_ceil :: "jsnum \<Rightarrow> jsnum" where
  "js_ceil (Num a) = Num (of_int \<lceil>a\<rceil>)"
| "js_ceil x = x"

fun js_floor :: "jsnum \<Rightarrow> jsnum" where
  "js_floor (Num a) = Num (of_int \<lfloor>a\<rfloor>)"
| "js_floor x = x"

fun js_min :: "jsnum \<Rightarrow> jsnum \<Rightarrow> jsnum" where
  "js_min NaN y = NaN"
| "js_min x NaN = NaN"
| "js_min NegInf y = NegInf"
| "js_min x NegInf = NegInf"
| "js_min PosInf y = y"
| "js_min x PosInf = x"
| "js_min (Num a) (Num b) = Num (min a b)"

fun js_max :: "jsnum \<Rightarrow> jsnum \<Rightarrow> jsnum" where
  "js_max NaN y = NaN"
| "js_max x NaN = NaN"
| "js_max PosInf y = PosInf"
| "js_max x PosInf = PosInf"
| "js_max NegInf y = y"
| "js_max x NegInf = x"
| "js_max (Num a) (Num b) = Num (max a b)"

text \<open>\<open>texts.reduce((sum, t) => sum + t.length, 0)\<close>\<close>

definition total_length :: "string list \<Rightarrow> nat" where
  "total_length texts = fold (\<lambda>t sum. sum + length t) texts 0"

text \<open>The function of \<open>tools/sentiment-batch.ts\<close>: clamp between 5 and 10.\<close>

definition getOptimalBatchSize :: "string list \<Rightarrow> jsnum" where
  "getOptimalBatchSize texts =
     (let avgTextLength = js_div (Num (of_nat (total_length texts))) (Num (of_nat (length texts)));
          targetTokens = Num 10000;
          tokensPerText = js_ceil (js_div avgTextLength (Num 4));
          optimalSize = js_floor (js_div targetTokens tokensPerText)
      in js_max (Num 5) (js_min (Num 10) optimalSize))"

text \<open>The earlier copy of the batch engine: the same function, clamping between 5 and 25.\<close>

definition getOptimalBatchSize_25 :: "string list \<Rightarrow> jsnum" where
  "getOptimalBatchSize_25 texts =
     (let avgTextLength = js_div (Num (of_nat (total_length texts))) (Num (of_nat (length texts)));
          targetTokens = Num 10000;
          tokensPerText = js_ceil (js_div avgTextLength (Num 4));
          optimalSize = js_floor (js_div targetTokens tokensPerText)
      in js_max (Num 5) (js_min (Num 25) optimalSize))"

section \<open>Sentiment aggregation (tools/sentiment.ts)\<close>

text \<open>The four categories that the type \<open>SentimentResult\<close> allows for \<open>sentiment\<close>.\<close>

datatype sentiment = positive | negative | neutral | mixed

record SentimentResult =
  sentiment :: sentiment
  score :: rat
  confidence :: rat

text \<open>
  The accumulators of the aggregation loop. \<open>sentimentCounts\<close> is an object literal with
  the four keys in the order written; incrementing a count keeps the key in its place.
\<close>

record aggregation =
  sentimentCounts :: "(sentiment \<times> nat) list"
  totalScore :: rat
  totalConfidence :: rat

definition aggregation_start :: aggregation where
  "aggregation_start =
     \<lparr>sentimentCounts = [(positive, 0), (negative, 0), (neutral, 0), (mixed, 0)],
      totalScore = 0,
      totalConfidence = 0\<rparr>"

definition increment :: "sentiment \<Rightarrow> (sentiment \<times> nat) list \<Rightarrow> (sentiment \<times> nat) list" where
  "increment s counts = map (\<lambda>(k, n). if k = s then (k, n + 1) else (k, n)) counts"

definition aggregate_step :: "SentimentResult \<Rightarrow> aggregation \<Rightarrow> aggregation" where
  "aggregate_step result acc =
     \<lparr>sentimentCounts = increment (sentiment result) (sentimentCounts acc),
      totalScore = totalScore acc + score result,
      totalConfidence = totalConfidence acc + confidence result\<rparr>"

text \<open>
  \<open>Object.entries(sentimentCounts).sort((a, b) => b[1] - a[1])[0][0]\<close>: the sort is stable
  and orders by descending count, which is an ascending stable sort on the negated count.
\<close>

definition dominant :: "(sentiment \<times> nat) list \<Rightarrow> sentiment" where
  "dominant counts = fst (hd (sort_key (\<lambda>entry. - int (snd entry)) counts))"

record analysis =
  overall_sentiment :: sentiment
  average_score :: rat
  average_confidence :: rat
  sentiment_distribution :: "(sentiment \<times> nat) list"

text \<open>
  The aggregation of \<open>analyzeSentiment\<close> from the per-item results on: \<open>None\<close> is the early
  return \<open>'Failed to analyze sentiment'\<close> for an empty result list. The aspect table is
  computed from the same loop and is not part of this embedding.
\<close>

definition aggregate :: "SentimentResult list \<Rightarrow> analysis option" where
  "aggregate results =
     (if length results = 0 then None
      else (let acc = fold aggregate_step results aggregation_start
            in Some \<lparr>overall_sentiment = dominant (sentimentCounts acc),
                      average_score = totalScore acc / of_nat (length results),
                      average_confidence = totalConfidence acc / of_nat (length results),
                      sentiment_distribution = sentimentCounts acc\<rparr>))"

text \<open>The number of results of a category, and the fixed order of the categories.\<close>

definition count_of :: "SentimentResult list \<Rightarrow> sentiment \<Rightarrow> nat" where
  "count_of results c = length (filter (\<lambda>r. sentiment r = c) results)"

fun rank :: "sentiment \<Rightarrow> nat" where
  "rank positive = 0"
| "rank negative = 1"
| "rank neutral = 2"
| "rank mixed = 3"

section \<open>The rate-limited queue (services/rate-limiter.ts)\<close>

text \<open>
  An error as the queue inspects it: its \<open>message\<close> and its \<open>statusCode\<close>, either of which
  may be missing. An operation \<open>fn\<close> is called once per attempt; \<open>fn k\<close> is what its call
  number \<open>k\<close> (from 0) does.
\<close>

record js_error =
  message :: "string option"
  statusCode :: "rat option"

datatype 'a attempt_result = Ok 'a | Fail js_error

record 'a QueueItem =
  item_id :: string
  fn :: "nat \<Rightarrow> 'a attempt_result"
  retries :: nat

record RateLimiterOptions =
  maxRequestsPerMinute :: nat
  maxRequestsPerSecond :: nat
  maxRetries :: nat
  retryDelay :: rat
  backoffMultiplier :: rat

text \<open>How the promise returned by \<open>execute\<close> is settled.\<close>

datatype 'a settlement = Resolved 'a | Rejected js_error

text \<open>
  \<open>timers\<close> holds the re-queues scheduled with \<open>setTimeout\<close> and not yet fired, each with
  its delay in milliseconds; \<open>settled\<close> records the calls of \<open>resolve\<close> and \<open>reject\<close>.
\<close>

record 'a RateLimiter =
  queue :: "'a QueueItem list"
  processing :: bool
  perSecond :: nat
  perMinute :: nat
  options :: RateLimiterOptions
  timers :: "(rat \<times> 'a QueueItem) list"
  settled :: "(string \<times> 'a settlement) list"

definition default_options :: RateLimiterOptions where
  "default_options =
     \<lparr>maxRequestsPerMinute = 60, maxRequestsPerSecond = 2, maxRetries = 3,
      retryDelay = 1000, backoffMultiplier = 2\<rparr>"

definition RateLimiter_new :: "RateLimiterOptions \<Rightarrow> 'a RateLimiter" where
  "RateLimiter_new opts =
     \<lparr>queue = [], processing = False, perSecond = 0, perMinute = 0, options = opts,
      timers = [], settled = []\<rparr>"

definition bedrock_options :: RateLimiterOptions where
  "bedrock_options =
     \<lparr>maxRequestsPerMinute = 30, maxRequestsPerSecond = 1, maxRetries = 3,
      retryDelay = 2000, backoffMultiplier = 2\<rparr>"

definition bedrockRateLimiter :: "'a RateLimiter" where
  "bedrockRateLimiter = RateLimiter_new bedrock_options"

text \<open>\<open>toLowerCase\<close> on the ASCII letters and \<open>String.prototype.includes\<close>.\<close>

definition to_lower :: "char \<Rightarrow> char" where
  "to_lower c =
     (let n = (of_char c :: nat) in if 65 \<le> n \<and> n \<le> 90 then char_of (n + 32) else c)"

definition toLowerCase :: "string \<Rightarrow> string" where
  "toLowerCase s = map to_lower s"

fun starts_with :: "string \<Rightarrow> string \<Rightarrow> bool" where
  "starts_with s [] = True"
| "starts_with [] (c # sub) = False"
| "starts_with (d # s) (c # sub) = (d = c \<and> starts_with s sub)"

fun str_includes :: "string \<Rightarrow> string \<Rightarrow> bool" where
  "str_includes [] sub = starts_with [] sub"
| "str_includes (d # s) sub = (starts_with (d # s) sub \<or> str_includes s sub)"

definition isRateLimitError :: "js_error \<Rightarrow> bool" where
  "isRateLimitError error =
     (let errorMessage = (case message error of None \<Rightarrow> '''' | Some m \<Rightarrow> toLowerCase m)
      in str_includes errorMessage ''rate limit''
         \<or> str_includes errorMessage ''too many requests''
         \<or> statusCode error = Some 429)"

text \<open>
  \<open>execute\<close>: a new item with no retries goes to the back of the queue (\<open>new_id\<close> is its
  random id), and \<open>process\<close> is called. \<open>process\<close> starts the loop unless it is running
  already or the queue is empty; the loop then runs pass by pass (\<open>process_step\<close>).
\<close>

definition execute :: "string \<Rightarrow> (nat \<Rightarrow> 'a attempt_result) \<Rightarrow> 'a RateLimiter \<Rightarrow> 'a RateLimiter" where
  "execute new_id f s = s\<lparr>queue := queue s @ [\<lparr>item_id = new_id, fn = f, retries = 0\<rparr>]\<rparr>"

definition process_start :: "'a RateLimiter \<Rightarrow> 'a RateLimiter" where
  "process_start s = (if processing s \<or> length (queue s) = 0 then s else s\<lparr>processing := True\<rparr>)"

text \<open>
  The \<open>try\<close>/\<open>catch\<close> of the loop for the item just taken from the queue: resolve, schedule
  a re-queue after a delay, or reject.
\<close>

datatype 'a disposition = Resolve 'a | Requeue rat "'a QueueItem" | Reject js_error

definition attempt :: "RateLimiterOptions \<Rightarrow> 'a QueueItem \<Rightarrow> 'a disposition" where
  "attempt opts item =
     (case fn item (retries item) of
        Ok result \<Rightarrow> Resolve result
      | Fail error \<Rightarrow>
          if isRateLimitError error \<and> retries item < maxRetries opts
          then (let item' = item\<lparr>retries := retries item + 1\<rparr>;
                    delay = retryDelay opts * backoffMultiplier opts ^ (retries item' - 1)
                in Requeue delay item')
          else Reject error)"

text \<open>
  One pass through the body of the \<open>while\<close> loop of \<open>process\<close>, with the pause it awaits
  (\<open>None\<close> when the loop ends on an empty queue).
\<close>

definition process_step :: "'a RateLimiter \<Rightarrow> 'a RateLimiter \<times> rat option" where
  "process_step s =
     (case queue s of
        [] \<Rightarrow> (s\<lparr>processing := False\<rparr>, None)
      | item # rest \<Rightarrow>
          if perSecond s \<ge> maxRequestsPerSecond (options s) then (s, Some 1000)
          else if perMinute s \<ge> maxRequestsPerMinute (options s) then (s, Some 5000)
          else (let s1 = s\<lparr>queue := rest, perSecond := perSecond s + 1,
                             perMinute := perMinute s + 1\<rparr>
                in case attempt (options s) item of
                     Resolve result \<Rightarrow>
                       (s1\<lparr>settled := settled s1 @ [(item_id item, Resolved result)]\<rparr>,
                        Some (of_nat (1000 div maxRequestsPerSecond (options s))))
                   | Requeue delay item' \<Rightarrow>
                       (s1\<lparr>timers := timers s1 @ [(delay, item')]\<rparr>, Some 0)
                   | Reject error \<Rightarrow>
                       (s1\<lparr>settled := settled s1 @ [(item_id item, Rejected error)]\<rparr>, Some 0)))"

text \<open>The callback of a re-queue timer: \<open>this.queue.unshift(item)\<close>.\<close>

definition fire_timer :: "rat \<times> 'a QueueItem \<Rightarrow> 'a RateLimiter \<Rightarrow> 'a RateLimiter" where
  "fire_timer t s = s\<lparr>queue := snd t # queue s, timers := remove1 t (timers s)\<rparr>"

text \<open>
  The life of one item: the delays of its successive re-queues and how its promise is
  settled in the end.
\<close>

function follow :: "RateLimiterOptions \<Rightarrow> 'a QueueItem \<Rightarrow> rat list \<times> 'a settlement" where
  "follow opts item =
     (case attempt opts item of
        Resolve result \<Rightarrow> ([], Resolved result)
      | Reject error \<Rightarrow> ([], Rejected error)
      | Requeue delay item' \<Rightarrow> (delay # fst (follow opts item'), snd (follow opts item')))"
  by pat_completeness auto
termination
proof (relation "measure (\<lambda>(opts, item). maxRetries opts - retries item)")
  show "wf (measure (\<lambda>(opts, item :: 'a QueueItem). maxRetries opts - retries item))" by simp
next
  fix opts :: RateLimiterOptions and item item' :: "'a QueueItem" and delay
  assume "attempt opts item = Requeue delay item'"
  then have "retries item < maxRetries opts \<and> retries item' = retries item + 1"
    by (auto simp: attempt_def Let_def split: attempt_result.splits if_splits)
  then show "((opts, item'), (opts, item)) \<in> measure (\<lambda>(opts, item). maxRetries opts - retries item)"
    by auto
next
  fix opts :: RateLimiterOptions and item item' :: "'a QueueItem" and delay
  assume "attempt opts item = Requeue delay item'"
  then have "retries item < maxRetries opts \<and> retries item' = retries item + 1"
    by (auto simp: attempt_def Let_def split: attempt_result.splits if_splits)
  then show "((opts, item'), (opts, item)) \<in> measure (\<lambda>(opts, item). maxRetries opts - retries item)"
    by auto
qed

text \<open>An error as Bedrock raises it when throttling, used in examples.\<close>

definition throttled :: "js_error" where
  "throttled = \<lparr>message = Some ''ThrottlingException: Rate limit exceeded'', statusCode = None\<rparr>"

section \<open>The analysis workflow (temporal/workflows.ts)\<close>

record social_handles =
  twitter :: "string option"
  linkedin :: "string option"
  bluesky :: "string option"
  youtube :: "string option"

record founder = social_handles +
  name :: string

record StartupAnalysisInput =
  startupName :: string
  website :: "string option"
  socialAccounts :: "social_handles option"
  founders :: "founder list option"
  search_keywords :: "string list option"
  competitors :: "string list option"

record DataFetchParams =
  query :: string
  limit :: "nat option"
  maxResults :: "nat option"
  smartMatch :: "bool option"
  fetch_website :: "string option"

record SentimentAnalysisParams =
  sa_startupName :: string
  useMinMax :: "bool option"
  deepAnalysis :: "bool option"

text \<open>
  A value stored under a key of \<open>results.dataSources\<close>: the text of a connector (or its
  error string), or the object of per-founder texts. Objects are maps from keys to values, so
  that the order in which concurrent tasks complete does not show.
\<close>

datatype slot = Str string | Obj "string \<rightharpoonup> string"

record analysis_results =
  analysis_id :: string
  res_startupName :: string
  res_website :: "string option"
  res_socialAccounts :: "social_handles option"
  res_founders :: "founder list option"
  analyzedAt :: nat
  dataSources :: "string \<rightharpoonup> slot"
  sentimentAnalysis :: "string option"

record StartupAnalysisResult = analysis_results +
  summary :: string

record DatabaseSaveParams =
  collection :: string
  data :: analysis_results

text \<open>
  The activity proxies. Calling one gives what its promise settles to once Temporal has
  applied the retry policy of \<open>proxyActivities\<close> (five attempts): the payload, or the
  failure with its message.
\<close>

record activities =
  fetchTwitterData :: "DataFetchParams \<Rightarrow> string outcome"
  fetchRedditData :: "DataFetchParams \<Rightarrow> string outcome"
  fetchBlueskyData :: "DataFetchParams \<Rightarrow> string outcome"
  fetchYouTubeData :: "DataFetchParams \<Rightarrow> string outcome"
  fetchTikTokData :: "DataFetchParams \<Rightarrow> string outcome"
  fetchInstagramData :: "DataFetchParams \<Rightarrow> string outcome"
  fetchWebData :: "DataFetchParams \<Rightarrow> string outcome"
  fetchLinkedInData :: "DataFetchParams \<Rightarrow> string outcome"
  fetchNewsData :: "DataFetchParams \<Rightarrow> string outcome"
  fetchTechData :: "DataFetchParams \<Rightarrow> string outcome"
  analyzeSentiment :: "SentimentAnalysisParams \<Rightarrow> string outcome"
  saveToDatabase :: "DatabaseSaveParams \<Rightarrow> unit outcome"
  generateSummary :: "analysis_results \<Rightarrow> string outcome"

text \<open>Decimal digits of a number, for the template literal \<open>analysis_${Date.now()}\<close>.\<close>

function decimal :: "nat \<Rightarrow> string" where
  "decimal n = (if n < 10 then [char_of (48 + n)] else decimal (n div 10) @ [char_of (48 + n mod 10)])"
  by pat_completeness auto
termination
  by (relation "measure id") auto

text \<open>\<open>Array.prototype.join\<close>\<close>

fun js_join :: "string \<Rightarrow> string list \<Rightarrow> string" where
  "js_join sep [] = ''''"
| "js_join sep [x] = x"
| "js_join sep (x # y # ys) = x @ sep @ js_join sep (y # ys)"

text \<open>
  \<open>p.then(r => { slot = r }).catch(e => { slot = `Error: ${e.message}` })\<close>: what ends up
  in the slot.
\<close>

definition settle :: "string outcome \<Rightarrow> string" where
  "settle p = (case p of Returns r \<Rightarrow> r | Throws m \<Rightarrow> ''Error: '' @ m)"

definition fetch_params :: "string \<Rightarrow> DataFetchParams" where
  "fetch_params q =
     \<lparr>query = q, limit = None, maxResults = None, smartMatch = None, fetch_website = None\<rparr>"

text \<open>The ten connector calls of phases 1 and 2, with the arguments the workflow passes.\<close>

definition twitter_task :: "activities \<Rightarrow> StartupAnalysisInput \<Rightarrow> string outcome" where
  "twitter_task act input = fetchTwitterData act
     ((fetch_params (startupName input))
        \<lparr>limit := Some 100, smartMatch := Some True, fetch_website := website input\<rparr>)"

definition reddit_task :: "activities \<Rightarrow> StartupAnalysisInput \<Rightarrow> string outcome" where
  "reddit_task act input = fetchRedditData act
     ((fetch_params (startupName input))
        \<lparr>limit := Some 50, smartMatch := Some True, fetch_website := website input\<rparr>)"

definition bluesky_task :: "activities \<Rightarrow> StartupAnalysisInput \<Rightarrow> string outcome" where
  "bluesky_task act input = fetchBlueskyData act
     ((fetch_params (startupName input))\<lparr>limit := Some 50\<rparr>)"

definition youtube_task :: "activities \<Rightarrow> StartupAnalysisInput \<Rightarrow> string outcome" where
  "youtube_task act input = fetchYouTubeData act
     ((fetch_params (startupName input @ '' demo review''))\<lparr>limit := Some 25\<rparr>)"

definition tiktok_task :: "activities \<Rightarrow> StartupAnalysisInput \<Rightarrow> string outcome" where
  "tiktok_task act input = fetchTikTokData act
     ((fetch_params (startupName input))
        \<lparr>limit := Some 50, smartMatch := Some True, fetch_website := website input\<rparr>)"

definition instagram_task :: "activities \<Rightarrow> StartupAnalysisInput \<Rightarrow> string outcome" where
  "instagram_task act input = fetchInstagramData act
     ((fetch_params (startupName input))
        \<lparr>limit := Some 50, smartMatch := Some True, fetch_website := website input\<rparr>)"

definition web_task :: "activities \<Rightarrow> StartupAnalysisInput \<Rightarrow> string outcome" where
  "web_task act input = fetchWebData act
     ((fetch_params (startupName input))\<lparr>maxResults := Some 20\<rparr>)"

definition linkedin_task :: "activities \<Rightarrow> StartupAnalysisInput \<Rightarrow> string outcome" where
  "linkedin_task act input = fetchLinkedInData act (fetch_params (startupName input))"

definition news_task :: "activities \<Rightarrow> StartupAnalysisInput \<Rightarrow> string outcome" where
  "news_task act input = fetchNewsData act
     ((fetch_params (startupName input @ '' funding announcement''))\<lparr>maxResults := Some 10\<rparr>)"

definition tech_task :: "activities \<Rightarrow> StartupAnalysisInput \<Rightarrow> string outcome" where
  "tech_task act input = fetchTechData act
     ((fetch_params (startupName input))\<lparr>maxResults := Some 15\<rparr>)"

text \<open>Phase 1: the six social-media tasks, each writing its own key.\<close>

definition phase1 :: "activities \<Rightarrow> StartupAnalysisInput \<Rightarrow> (string \<rightharpoonup> slot) \<Rightarrow> (string \<rightharpoonup> slot)" where
  "phase1 act input ds =
     ds(''twitter'' \<mapsto> Str (settle (twitter_task act input)),
        ''reddit'' \<mapsto> Str (settle (reddit_task act input)),
        ''bluesky'' \<mapsto> Str (settle (bluesky_task act input)),
        ''youtube'' \<mapsto> Str (settle (youtube_task act input)),
        ''tiktok'' \<mapsto> Str (settle (tiktok_task act input)),
        ''instagram'' \<mapsto> Str (settle (instagram_task act input)))"

text \<open>Phase 2: the four web-search tasks.\<close>

definition phase2 :: "activities \<Rightarrow> StartupAnalysisInput \<Rightarrow> (string \<rightharpoonup> slot) \<Rightarrow> (string \<rightharpoonup> slot)" where
  "phase2 act input ds =
     ds(''webGeneral'' \<mapsto> Str (settle (web_task act input)),
        ''linkedin'' \<mapsto> Str (settle (linkedin_task act input)),
        ''news'' \<mapsto> Str (settle (news_task act input)),
        ''techCommunity'' \<mapsto> Str (settle (tech_task act input)))"

text \<open>
  Phase 3: one task per founder, writing \<open>dataSources.founders[founder.name]\<close>. Two founders
  of the same name write the same key; the model lets the later one in the list win.
\<close>

definition phase3 :: "activities \<Rightarrow> StartupAnalysisInput \<Rightarrow> (string \<rightharpoonup> slot) \<Rightarrow> (string \<rightharpoonup> slot)" where
  "phase3 act input ds =
     (case founders input of
        None \<Rightarrow> ds
      | Some fs \<Rightarrow>
          if length fs > 0
          then ds(''founders'' \<mapsto> Obj (fold (\<lambda>f m. m(name f \<mapsto>
                    settle (fetchLinkedInData act
                       (fetch_params (name f @ '' '' @ startupName input))))) fs Map.empty))
          else ds)"

text \<open>Phase 4: the competitive analysis.\<close>

definition phase4 :: "activities \<Rightarrow> StartupAnalysisInput \<Rightarrow> (string \<rightharpoonup> slot) \<Rightarrow> (string \<rightharpoonup> slot)" where
  "phase4 act input ds =
     (case competitors input of
        None \<Rightarrow> ds
      | Some cs \<Rightarrow>
          if length cs > 0
          then ds(''competitiveAnalysis'' \<mapsto> Str (settle (fetchWebData act
                 ((fetch_params (startupName input @ '' vs '' @ js_join '' OR '' cs @ '' comparison''))
                    \<lparr>maxResults := Some 15\<rparr>))))
          else ds)"

text \<open>
  Phases 1 to 5: the \<open>results\<close> object as it stands before it is saved. The pauses between
  the phases (\<open>sleep\<close>) do not change it and are left out; \<open>now\<close> is the workflow clock read
  at the start. A failure of the sentiment task is caught and stored as an error string.
\<close>

definition collect_results :: "activities \<Rightarrow> nat \<Rightarrow> StartupAnalysisInput \<Rightarrow> analysis_results" where
  "collect_results act now input =
     (let results0 = \<lparr>analysis_id = ''analysis_'' @ decimal now,
                       res_startupName = startupName input,
                       res_website = website input,
                       res_socialAccounts = socialAccounts input,
                       res_founders = founders input,
                       analyzedAt = now,
                       dataSources = Map.empty,
                       sentimentAnalysis = None\<rparr>;
          results4 = results0\<lparr>dataSources :=
                        phase4 act input (phase3 act input (phase2 act input
                          (phase1 act input (dataSources results0))))\<rparr>
      in results4\<lparr>sentimentAnalysis := Some (settle (analyzeSentiment act
                        \<lparr>sa_startupName = startupName input, useMinMax = Some False,
                         deepAnalysis = Some True\<rparr>))\<rparr>)"

text \<open>
  The workflow: phases 6 and 7 are awaited without a \<open>catch\<close>, so a failure of either
  fails the run; otherwise the run returns \<open>{...results, summary}\<close>.
\<close>

definition startupAnalysisWorkflow ::
    "activities \<Rightarrow> nat \<Rightarrow> StartupAnalysisInput \<Rightarrow> StartupAnalysisResult outcome" where
  "startupAnalysisWorkflow act now input =
     (let results = collect_results act now input
      in case saveToDatabase act \<lparr>collection = ''startup_analyses'', data = results\<rparr> of
           Throws m \<Rightarrow> Throws m
         | Returns u \<Rightarrow>
             (case generateSummary act results of
                Throws m \<Rightarrow> Throws m
              | Returns s \<Rightarrow> Returns (analysis_results.extend results \<lparr>summary = s\<rparr>)))"






section \<open>The batch sentiment engine (tools/sentiment-batch.ts)\<close>

text \<open>
  The engine returns whatever \<open>JSON.parse\<close> produced, cast to \<open>BatchSentimentResult\<close> without
  a check, so its results are JSON values. \<open>JUndefined\<close> is the value of a missing property.
\<close>

datatype json =
    JNull
  | JUndefined
  | JBool bool
  | JNum rat
  | JStr string
  | JArr "json list"
  | JObj "(string \<times> json) list"

fun truthy :: "json \<Rightarrow> bool" where
  "truthy JNull = False"
| "truthy JUndefined = False"
| "truthy (JBool b) = b"
| "truthy (JNum n) = (n \<noteq> 0)"
| "truthy (JStr s) = (s \<noteq> [])"
| "truthy (JArr xs) = True"
| "truthy (JObj fs) = True"

text \<open>Reading a property of a value that is neither \<open>null\<close> nor \<open>undefined\<close>.\<close>

fun prop_of :: "json \<Rightarrow> string \<Rightarrow> json" where
  "prop_of (JObj fs) k = (case map_of fs k of None \<Rightarrow> JUndefined | Some v \<Rightarrow> v)"
| "prop_of v k = JUndefined"

text \<open>Assigning a property of an object.\<close>

fun set_prop :: "json \<Rightarrow> string \<Rightarrow> json \<Rightarrow> json" where
  "set_prop (JObj fs) k v = JObj (AList.update k v fs)"
| "set_prop x k v = x"

fun isArray :: "json \<Rightarrow> bool" where
  "isArray (JArr xs) = True"
| "isArray v = False"

text \<open>
  The own enumerable properties copied by an object spread \<open>{...v}\<close>: those of an object,
  the indexed elements of an array or of a string, none for anything else.
\<close>

fun spread :: "json \<Rightarrow> (string \<times> json) list" where
  "spread (JObj fs) = fs"
| "spread (JArr xs) = map (\<lambda>i. (decimal i, xs ! i)) [0..<length xs]"
| "spread (JStr s) = map (\<lambda>i. (decimal i, JStr [s ! i])) [0..<length s]"
| "spread v = []"

text \<open>
  What a successful \<open>bedrockClient.send\<close> delivers: a body from which the code reads the
  model's text, or one on which decoding the body or reading the text throws.
\<close>

datatype response = Text string | Malformed js_error

text \<open>
  The surroundings of the engine: \<open>send modelId prompt k\<close> is call number \<open>k\<close> of the
  Bedrock client for that request, \<open>JSON_parse\<close> is the built-in parser (\<open>None\<close> when it
  throws), \<open>md5_hex\<close> the digest of the cache key, and the two templates are the prompt
  literals around the number of texts and the formatted texts. One clock reading \<open>now\<close>
  stands for the readings of \<open>Date.now()\<close> during one call of the engine.
\<close>

record bedrock =
  send :: "string \<Rightarrow> string \<Rightarrow> nat \<Rightarrow> response attempt_result"
  JSON_parse :: "string \<Rightarrow> json option"
  md5_hex :: "string \<Rightarrow> string"
  claude_template :: "nat \<Rightarrow> string \<Rightarrow> string"
  mistral_template :: "nat \<Rightarrow> string \<Rightarrow> string"

record engine =
  sentiment_cache :: "json SimpleCache"
  rotator :: ModelRotator

text \<open>
  \<open>bedrockRateLimiter.execute(fn)\<close>: how the promise settles, by the life of the queue item
  (which does not depend on the item's random id).
\<close>

definition execute_settles :: "(nat \<Rightarrow> 'a attempt_result) \<Rightarrow> 'a settlement" where
  "execute_settles f = snd (follow bedrock_options \<lparr>item_id = [], fn = f, retries = 0\<rparr>)"

text \<open>The texts as numbered, quoted lines, each cut at 500 characters.\<close>

definition format_text :: "nat \<Rightarrow> string \<Rightarrow> string" where
  "format_text index text =
     ''[Text '' @ decimal (index + 1) @ '']: '' @ [CHR 0x22] @ take 500 text
       @ (if length text > 500 then ''...'' else '''') @ [CHR 0x22]"

definition formattedTexts :: "string list \<Rightarrow> string" where
  "formattedTexts texts =
     js_join [CHR 0x0A, CHR 0x0A] (map (\<lambda>i. format_text i (texts ! i)) [0..<length texts])"

text \<open>
  The regular expressions. \<open>/\{[\s\S]*\}/\<close> matches from the first opening brace to the last
  closing brace. \<open>/```json\s*([\s\S]*?)\s*```/\<close> captures what stands between the first
  \<open>```json\<close> and the next \<open>```\<close>, without the white space at either end. Characters are
  8-bit here, and \<open>\s\<close> is the white space among them.
\<close>

definition is_space :: "char \<Rightarrow> bool" where
  "is_space c = ((of_char c :: nat) \<in> {9, 10, 11, 12, 13, 32, 160})"

definition brace_match :: "string \<Rightarrow> string option" where
  "brace_match s =
     (let rest = dropWhile (\<lambda>c. c \<noteq> CHR ''{'') s
      in if CHR ''}'' \<in> set rest
         then Some (rev (dropWhile (\<lambda>c. c \<noteq> CHR ''}'') (rev rest)))
         else None)"

fun after_first :: "string \<Rightarrow> string \<Rightarrow> string option" where
  "after_first pat [] = (if pat = [] then Some [] else None)"
| "after_first pat (c # s) =
     (if starts_with (c # s) pat then Some (drop (length pat) (c # s)) else after_first pat s)"

fun before_first :: "string \<Rightarrow> string \<Rightarrow> string option" where
  "before_first pat [] = (if pat = [] then Some [] else None)"
| "before_first pat (c # s) =
     (if starts_with (c # s) pat then Some []
      else map_option (\<lambda>b. c # b) (before_first pat s))"

definition codeblock_match :: "string \<Rightarrow> string option" where
  "codeblock_match s =
     (case after_first ''```json'' s of
        None \<Rightarrow> None
      | Some rest \<Rightarrow>
          (case before_first ''```'' (dropWhile is_space rest) of
             None \<Rightarrow> None
           | Some body \<Rightarrow> Some (rev (dropWhile is_space (rev body)))))"

text \<open>The three extraction strategies of the Claude path; \<open>None\<close> is \<open>result = null\<close>.\<close>

definition extract_claude :: "bedrock \<Rightarrow> string \<Rightarrow> json option" where
  "extract_claude w content =
     (case JSON_parse w content of
        Some r \<Rightarrow> Some r
      | None \<Rightarrow>
          (case brace_match content of
             None \<Rightarrow> None
           | Some m \<Rightarrow>
               (case JSON_parse w m of
                  Some r \<Rightarrow> Some r
                | None \<Rightarrow>
                    (case codeblock_match content of
                       None \<Rightarrow> None
                     | Some g \<Rightarrow> JSON_parse w g))))"

text \<open>The two strategies of the Mistral path.\<close>

definition extract_mistral :: "bedrock \<Rightarrow> string \<Rightarrow> json option" where
  "extract_mistral w modelOutput =
     (case JSON_parse w modelOutput of
        Some r \<Rightarrow> Some r
      | None \<Rightarrow>
          (case brace_match modelOutput of
             None \<Rightarrow> None
           | Some m \<Rightarrow> JSON_parse w m))"

text \<open>The result synthesized when analysis is unavailable: one neutral entry per text.\<close>

definition placeholder :: "string list \<Rightarrow> string \<Rightarrow> string \<Rightarrow> json" where
  "placeholder texts err implications =
     JObj [(''results'', JArr (map (\<lambda>index.
              JObj [(''index'', JNum (of_nat index)), (''sentiment'', JStr ''neutral''),
                    (''score'', JNum (1 / 2)), (''confidence'', JNum (1 / 2)),
                    (''_error'', JStr err)]) [0..<length texts])),
           (''summary'', JObj [(''overall_sentiment'', JStr ''unknown''),
                               (''key_themes'', JArr []),
                               (''business_implications'', JStr implications)])]"

definition error_of :: "string \<Rightarrow> js_error" where
  "error_of msg = \<lparr>message = Some msg, statusCode = None\<rparr>"

text \<open>
  The \<open>try\<close> block of \<open>analyzeBatchWithMistral\<close> after a cache miss: the result returned
  or the error thrown, and the cache.
\<close>

definition mistral_try ::
    "bedrock \<Rightarrow> rat \<Rightarrow> string list \<Rightarrow> string \<Rightarrow> json SimpleCache
       \<Rightarrow> json attempt_result \<times> json SimpleCache" where
  "mistral_try w now texts cacheKey c =
     (case execute_settles (send w mistral_id (mistral_template w (length texts) (formattedTexts texts))) of
        Rejected e \<Rightarrow> (Fail e, c)
      | Resolved (Malformed e) \<Rightarrow> (Fail e, c)
      | Resolved (Text modelOutput) \<Rightarrow>
          (case extract_mistral w modelOutput of
             None \<Rightarrow> (Fail (error_of ''Failed to parse JSON from Mistral batch output''), c)
           | Some result \<Rightarrow>
               if truthy result \<and> truthy (prop_of result ''results'')
               then (let result' = set_prop result ''summary''
                                     (JObj (AList.update ''_model'' (JStr ''mistral-large'')
                                              (spread (prop_of result ''summary''))))
                     in (Ok result', cache_set now cacheKey result' (Some 600) c))
               else (Fail (error_of ''Failed to parse JSON from Mistral batch output''), c)))"

definition analyzeBatchWithMistral ::
    "bedrock \<Rightarrow> rat \<Rightarrow> string list \<Rightarrow> engine \<Rightarrow> json attempt_result \<times> engine" where
  "analyzeBatchWithMistral w now texts st =
     (let cacheKey = ''mistral_batch_'' @ md5_hex w (js_join ''|||'' texts);
          (cached, c1) = cache_get now cacheKey (sentiment_cache st)
      in if (case cached of None \<Rightarrow> False | Some v \<Rightarrow> truthy v)
         then (Ok (the cached), st\<lparr>sentiment_cache := c1\<rparr>)
         else (case mistral_try w now texts cacheKey c1 of
                 (Ok result, c2) \<Rightarrow> (Ok result, st\<lparr>sentiment_cache := c2\<rparr>)
               | (Fail error, c2) \<Rightarrow>
                   (Ok (placeholder texts ''All models failed''
                          ''Analysis unavailable - all models failed''),
                    st\<lparr>sentiment_cache := c2\<rparr>)))"

text \<open>The \<open>try\<close> block of \<open>analyzeBatchWithClaude\<close> after a cache miss.\<close>

definition claude_try ::
    "bedrock \<Rightarrow> rat \<Rightarrow> string list \<Rightarrow> string \<Rightarrow> json SimpleCache
       \<Rightarrow> json attempt_result \<times> json SimpleCache" where
  "claude_try w now texts cacheKey c =
     (case execute_settles (send w claude_id (claude_template w (length texts) (formattedTexts texts))) of
        Rejected e \<Rightarrow> (Fail e, c)
      | Resolved (Malformed e) \<Rightarrow> (Fail e, c)
      | Resolved (Text content) \<Rightarrow>
          (case extract_claude w content of
             None \<Rightarrow> (Fail (error_of ''Failed to parse JSON from Claude batch output''), c)
           | Some result \<Rightarrow>
               if truthy result \<and> truthy (prop_of result ''results'')
               then (if \<not> isArray (prop_of result ''results'')
                     then (Fail (error_of ''Invalid result structure: results is not an array''), c)
                     else (Ok result, cache_set now cacheKey result (Some 600) c))
               else (Fail (error_of ''Failed to parse JSON from Claude batch output''), c)))"

text \<open>
  \<open>analyzeBatchWithClaude\<close>. In the \<open>catch\<close>, \<open>error.message.includes\<close> is evaluated only
  when the fall-back is enabled, and throws a \<open>TypeError\<close> for an error without a message.
\<close>

definition analyzeBatchWithClaude ::
    "bedrock \<Rightarrow> rat \<Rightarrow> string list \<Rightarrow> bool \<Rightarrow> engine \<Rightarrow> json attempt_result \<times> engine" where
  "analyzeBatchWithClaude w now texts useMistralFallback st =
     (let cacheKey = ''claude_batch_'' @ md5_hex w (js_join ''|||'' texts);
          (cached, c1) = cache_get now cacheKey (sentiment_cache st)
      in if (case cached of None \<Rightarrow> False | Some v \<Rightarrow> truthy v)
         then (Ok (the cached), st\<lparr>sentiment_cache := c1\<rparr>)
         else (case claude_try w now texts cacheKey c1 of
                 (Ok result, c2) \<Rightarrow> (Ok result, st\<lparr>sentiment_cache := c2\<rparr>)
               | (Fail error, c2) \<Rightarrow>
                   if useMistralFallback
                   then (case message error of
                           None \<Rightarrow> (Fail (error_of ''Cannot read properties of undefined''),
                                     st\<lparr>sentiment_cache := c2\<rparr>)
                         | Some m \<Rightarrow>
                             if str_includes m ''rate limit'' \<or> str_includes m ''Too many requests''
                             then analyzeBatchWithMistral w now texts (st\<lparr>sentiment_cache := c2\<rparr>)
                             else (Ok (placeholder texts ''Batch analysis failed''
                                         ''Analysis unavailable due to API error''),
                                   st\<lparr>sentiment_cache := c2\<rparr>))
                   else (Ok (placeholder texts ''Batch analysis failed''
                               ''Analysis unavailable due to API error''),
                         st\<lparr>sentiment_cache := c2\<rparr>)))"

text \<open>The model-specific call of \<open>analyzeBatchSmart\<close>, for the chosen and the fall-back model.\<close>

definition analyze_with ::
    "bedrock \<Rightarrow> rat \<Rightarrow> string list \<Rightarrow> string \<Rightarrow> engine \<Rightarrow> json attempt_result \<times> engine" where
  "analyze_with w now texts model st =
     (if str_includes model ''claude''
      then analyzeBatchWithClaude w now texts False st
      else analyzeBatchWithMistral w now texts st)"

text \<open>
  \<open>analyzeBatchSmart\<close>. A throwing \<open>getNextModel\<close> is outside the \<open>try\<close>; an \<open>undefined\<close>
  model makes \<open>nextModel.includes\<close> throw in the \<open>try\<close> and again in the \<open>catch\<close>.
\<close>

definition analyzeBatchSmart ::
    "bedrock \<Rightarrow> rat \<Rightarrow> string list \<Rightarrow> engine \<Rightarrow> json attempt_result \<times> engine" where
  "analyzeBatchSmart w now texts st =
     (case getNextModel now (rotator st) of
        (Throws m, rot1) \<Rightarrow> (Fail (error_of m), st\<lparr>rotator := rot1\<rparr>)
      | (Returns None, rot1) \<Rightarrow>
          (Fail (error_of ''Cannot read properties of undefined''), st\<lparr>rotator := rot1\<rparr>)
      | (Returns (Some nextModel), rot1) \<Rightarrow>
          (let st1 = st\<lparr>rotator := rot1\<rparr>;
               (result, success, st3) =
                 (case analyze_with w now texts nextModel st1 of
                    (Ok result, st2) \<Rightarrow> (result, True, st2)
                  | (Fail error, st2) \<Rightarrow>
                      (let fallbackModel = (if str_includes nextModel ''claude''
                                            then mistral_id else claude_id)
                       in case analyze_with w now texts fallbackModel st2 of
                            (Ok result, st3) \<Rightarrow> (result, True, st3)
                          | (Fail fallbackError, st3) \<Rightarrow>
                              (placeholder texts ''All models failed''
                                 ''Analysis unavailable - all models failed'', False, st3)))
           in (Ok result, st3\<lparr>rotator := recordRequest now nextModel success (rotator st3)\<rparr>)))"

text \<open>
  For stating results: the entry a model's path finds in the cache (\<open>None\<close> on a miss), and
  what the \<open>try\<close> block of the model's path yields after a miss.
\<close>

definition cache_key :: "bedrock \<Rightarrow> string \<Rightarrow> string list \<Rightarrow> string" where
  "cache_key w model texts =
     (if str_includes model ''claude'' then ''claude_batch_'' else ''mistral_batch_'')
       @ md5_hex w (js_join ''|||'' texts)"

definition cached_result :: "bedrock \<Rightarrow> rat \<Rightarrow> string list \<Rightarrow> string \<Rightarrow> json SimpleCache \<Rightarrow> json option" where
  "cached_result w now texts model c =
     (case fst (cache_get now (cache_key w model texts) c) of
        None \<Rightarrow> None
      | Some v \<Rightarrow> if truthy v then Some v else None)"

definition provider_outcome ::
    "bedrock \<Rightarrow> rat \<Rightarrow> string list \<Rightarrow> string \<Rightarrow> json SimpleCache \<Rightarrow> json attempt_result" where
  "provider_outcome w now texts model c =
     fst ((if str_includes model ''claude'' then claude_try else mistral_try)
            w now texts (cache_key w model texts)
            (snd (cache_get now (cache_key w model texts) c)))"

definition own_placeholder :: "string \<Rightarrow> string list \<Rightarrow> json" where
  "own_placeholder model texts =
     (if str_includes model ''claude''
      then placeholder texts ''Batch analysis failed'' ''Analysis unavailable due to API error''
      else placeholder texts ''All models failed'' ''Analysis unavailable - all models failed'')"





text \<open>An example: every call of the Bedrock client is throttled.\<close>

definition all_down :: bedrock where
  "all_down =
     \<lparr>send = (\<lambda>modelId prompt k. Fail throttled),
      JSON_parse = (\<lambda>s. None),
      md5_hex = (\<lambda>s. ''d41d8cd9''),
      claude_template = (\<lambda>n formatted. formatted),
      mistral_template = (\<lambda>n formatted. formatted)\<rparr>"

definition fresh_engine :: engine where
  "fresh_engine = \<lparr>sentiment_cache = sentimentCache, rotator = sentimentModelRotator\<rparr>"

text \<open>
  What a model's path returns: the cached result, else the parsed output of the provider,
  else the path's own placeholder.
\<close>

definition answer_of :: "bedrock \<Rightarrow> rat \<Rightarrow> string list \<Rightarrow> string \<Rightarrow> json SimpleCache \<Rightarrow> json" where
  "answer_of w now texts model c =
     (case cached_result w now texts model c of
        Some v \<Rightarrow> v
      | None \<Rightarrow>
          (case provider_outcome w now texts model c of
             Ok r \<Rightarrow> r
           | Fail e \<Rightarrow> own_placeholder model texts))"

section \<open>Cache: results\<close>

lemma cache_get_after_set:
  "cache_get t key (cache_set now key v ttlSeconds c) =
     (let c' = cache_set now key v ttlSeconds c;
          e = now + ttl_or_default ttlSeconds (defaultTTL c) * 1000
      in if t > e then (None, c'\<lparr>cache := (cache c')(key := None)\<rparr>) else (Some v, c'))"
  by (simp add: cache_get_def cache_set_def Let_def)

text \<open>
  C4, as stated, fails: an entry set with a ttl of one second is still returned when
  exactly one second has elapsed (the test is \<open>Date.now() > item.expiry\<close>), and an entry
  set with a negative ttl is absent on the immediate read.
\<close>

theorem C4_boundary_counterexample:
  "fst (cache_get (0 + 1 * 1000) ''k'' (cache_set 0 ''k'' (7::nat) (Some 1) (SimpleCache_new 300)))
     = Some 7
   \<and> fst (cache_get 0 ''k'' (cache_set 0 ''k'' (7::nat) (Some (- 1)) (SimpleCache_new 300)))
     = None"
  by (simp add: cache_get_after_set Let_def ttl_or_default_def SimpleCache_new_def)

text \<open>
  C4 (amended): for a positive ttl, a read at most \<open>ttl\<close> seconds after the \<open>set\<close>
  (the immediate read included) returns the value and leaves the cache as it is; a read
  strictly later returns absent and removes the entry.
\<close>

theorem C4_set_then_get:
  assumes "0 < ttl" and "0 \<le> elapsed"
  shows "(elapsed \<le> ttl * 1000 \<longrightarrow>
            cache_get (now + elapsed) key (cache_set now key v (Some ttl) c)
              = (Some v, cache_set now key v (Some ttl) c))
       \<and> (ttl * 1000 < elapsed \<longrightarrow>
            fst (cache_get (now + elapsed) key (cache_set now key v (Some ttl) c)) = None
          \<and> cache (snd (cache_get (now + elapsed) key (cache_set now key v (Some ttl) c))) key
              = None)"
  using assms by (simp add: cache_get_after_set Let_def ttl_or_default_def)

theorem C4_set_then_get_witness:
  "cache_get (5 + 0) ''k'' (cache_set 5 ''k'' (7::nat) (Some 2) (SimpleCache_new 300))
     = (Some 7, cache_set 5 ''k'' (7::nat) (Some 2) (SimpleCache_new 300))
   \<and> fst (cache_get (5 + 2001) ''k'' (cache_set 5 ''k'' (7::nat) (Some 2) (SimpleCache_new 300)))
     = None"
proof -
  have a: "(0::rat) < 2" and b: "(0::rat) \<le> 0" and b': "(0::rat) \<le> 2001" by simp_all
  from C4_set_then_get [OF a b, of 5 "''k''" "7::nat" "SimpleCache_new 300"]
       C4_set_then_get [OF a b', of 5 "''k''" "7::nat" "SimpleCache_new 300"]
  show ?thesis by simp
qed

text \<open>
  C10: an explicit ttl of \<open>0\<close> is falsy, so \<open>set\<close> stores the entry exactly as if the ttl
  had been omitted, with expiry \<open>now + defaultTTL\<close>; every read within the default window
  returns the value.
\<close>

theorem C10_zero_ttl_uses_default:
  "cache_set now key v (Some 0) c = cache_set now key v None c
   \<and> (\<forall>elapsed. 0 \<le> elapsed \<and> elapsed \<le> defaultTTL c \<longrightarrow>
         fst (cache_get (now + elapsed) key (cache_set now key v (Some 0) c)) = Some v)"
proof (intro conjI allI impI)
  show "cache_set now key v (Some 0) c = cache_set now key v None c"
    by (simp add: cache_set_def ttl_or_default_def)
next
  fix elapsed :: rat
  assume "0 \<le> elapsed \<and> elapsed \<le> defaultTTL c"
  then have "\<not> now + elapsed > now + ttl_or_default (Some 0) (defaultTTL c) * 1000"
    by (simp add: ttl_or_default_def)
  then show "fst (cache_get (now + elapsed) key (cache_set now key v (Some 0) c)) = Some v"
    by (simp add: cache_get_after_set Let_def)
qed

theorem C10_zero_ttl_uses_default_witness:
  "fst (cache_get (0 + 600000) ''k'' (cache_set 0 ''k'' (7::nat) (Some 0) sentimentCache)) = Some 7
   \<and> fst (cache_get (0 + 0) ''k'' (cache_set 0 ''k'' (7::nat) (Some 0) sentimentCache)) = Some 7"
proof -
  have d: "defaultTTL (sentimentCache :: nat SimpleCache) = 600000"
    by (simp add: sentimentCache_def SimpleCache_new_def)
  from C10_zero_ttl_uses_default [of 0 "''k''" "7::nat" sentimentCache]
  have h: "\<forall>elapsed. 0 \<le> elapsed \<and> elapsed \<le> 600000 \<longrightarrow>
          fst (cache_get (0 + elapsed) ''k'' (cache_set 0 ''k'' (7::nat) (Some 0) sentimentCache))
            = Some 7"
    unfolding d by (rule conjunct2)
  have "(0::rat) \<le> 600000 \<and> (600000::rat) \<le> 600000" and "(0::rat) \<le> 0 \<and> (0::rat) \<le> 600000"
    by simp_all
  with h show ?thesis by blast
qed

section \<open>Model rotator: results\<close>

lemma models_getNextModel: "models (snd (getNextModel now r)) = models r"
  by (simp add: getNextModel_def split: outcome.splits option.splits prod.splits)

lemma stats_of_recordRequest:
  "stats_of (recordRequest now model ok r) m =
     (if m = model then map_option (record_stats now ok) (stats_of r m) else stats_of r m)"
  by (simp add: stats_of_def recordRequest_def update_conv' split: option.splits)

lemma stats_of_decay_tick: "stats_of (decay_tick r) m = map_option decay_stats (stats_of r m)"
  by (simp add: stats_of_def decay_tick_def map_of_map)

lemma stats_of_apply_event:
  "stats_of (apply_event e r) m = map_option (on_stats m e) (stats_of r m)"
proof (cases e)
  case (Record now model ok)
  then show ?thesis
    by (cases "stats_of r m") (auto simp: stats_of_recordRequest)
next
  case Tick
  then show ?thesis by (cases "stats_of r m") (simp_all add: stats_of_decay_tick)
next
  case (GetNext now)
  then show ?thesis
    by (cases "stats_of r m") (simp_all add: stats_of_def models_getNextModel)
qed

lemma stats_of_run_events:
  "stats_of (run_events es r) m = map_option (fold (on_stats m) es) (stats_of r m)"
  unfolding run_events_def
proof (induction es arbitrary: r)
  case Nil
  then show ?case by (cases "stats_of r m") simp_all
next
  case (Cons e es)
  then show ?case
    by (cases "stats_of r m") (simp_all add: stats_of_apply_event)
qed

lemma errors_bound:
  "\<forall>e \<in> set es. \<not> is_failure_of m e \<Longrightarrow>
   recentErrors (fold (on_stats m) es st)
     \<le> max 0 (recentErrors st - of_nat (ticks es) - of_nat (successes m es) / 2)"
proof (induction es arbitrary: st)
  case Nil
  then show ?case by (simp add: ticks_def successes_def)
next
  case (Cons e es)
  have ih: "recentErrors (fold (on_stats m) es (on_stats m e st))
     \<le> max 0 (recentErrors (on_stats m e st) - of_nat (ticks es) - of_nat (successes m es) / 2)"
    using Cons by simp
  have nf: "\<not> is_failure_of m e" using Cons.prems by simp
  show ?case
  proof (cases e)
    case (Record now model ok)
    then show ?thesis using ih nf
      by (auto simp: ticks_def successes_def record_stats_def Let_def max_def add_divide_distrib
               split: if_splits)
  next
    case Tick
    then show ?thesis using ih
      by (auto simp: ticks_def successes_def decay_stats_def Let_def max_def add_divide_distrib
               split: if_splits)
  next
    case (GetNext now)
    then show ?thesis using ih by (simp add: ticks_def successes_def)
  qed
qed

lemma stays_recovered:
  "\<forall>e \<in> set es. \<not> is_failure_of m e \<Longrightarrow> isAvailable st \<Longrightarrow> recentErrors st = 0 \<Longrightarrow>
   isAvailable (fold (on_stats m) es st) \<and> recentErrors (fold (on_stats m) es st) = 0"
proof (induction es arbitrary: st)
  case Nil
  then show ?case by simp
next
  case (Cons e es)
  have "isAvailable (on_stats m e st) \<and> recentErrors (on_stats m e st) = 0"
    using Cons.prems by (cases e) (auto simp: record_stats_def decay_stats_def Let_def)
  with Cons show ?case by simp
qed

lemma recovery_stats:
  assumes nf1: "\<forall>e \<in> set es1. \<not> is_failure_of m e"
      and nf2: "\<forall>e \<in> set es2. \<not> is_failure_of m e"
      and bound: "recentErrors st \<le> 1 + of_nat (ticks es1) + of_nat (successes m es1) / 2"
  shows "isAvailable (fold (on_stats m) (es1 @ Tick # es2) st)
       \<and> recentErrors (fold (on_stats m) (es1 @ Tick # es2) st) = 0"
proof -
  let ?s1 = "fold (on_stats m) es1 st"
  have "recentErrors ?s1 \<le> 1"
    using errors_bound [OF nf1, of st] bound by (simp add: max_def split: if_splits)
  then have "isAvailable (decay_stats ?s1) \<and> recentErrors (decay_stats ?s1) = 0"
    by (simp add: decay_stats_def Let_def max_def)
  then show ?thesis
    using stays_recovered [OF nf2, of "decay_stats ?s1"] by simp
qed

lemma three_failures_stats:
  "0 \<le> recentErrors st \<Longrightarrow>
   \<not> isAvailable (record_stats t3 False (record_stats t2 False (record_stats t1 False st)))
   \<and> recentErrors (record_stats t3 False (record_stats t2 False (record_stats t1 False st)))
       = recentErrors st + 3"
  by (simp add: record_stats_def Let_def)

lemma map_of_fold_update:
  "map_of (fold (\<lambda>model acc. AList.update model v acc) ms al) k =
     (if k \<in> set ms then Some v else map_of al k)"
  by (induction ms arbitrary: al) (auto simp: update_conv')

lemma distinct_fold_update:
  "distinct (map fst al) \<Longrightarrow>
   distinct (map fst (fold (\<lambda>model acc. AList.update model v acc) ms al))"
  by (induction ms arbitrary: al) (auto simp: distinct_update)

lemma stats_of_new:
  "stats_of (ModelRotator_new ms) m = (if m \<in> set ms then Some fresh_stats else None)"
  by (simp add: stats_of_def ModelRotator_new_def map_of_fold_update)

lemma distinct_apply_event:
  "distinct (map fst (models r)) \<Longrightarrow> distinct (map fst (models (apply_event e r)))"
proof (cases e)
  case (Record now model ok)
  assume "distinct (map fst (models r))"
  with Record show ?thesis
    by (auto simp: recordRequest_def distinct_update split: option.splits)
next
  case Tick
  assume "distinct (map fst (models r))"
  moreover have "map fst (models (decay_tick r)) = map fst (models r)"
    by (auto simp: decay_tick_def)
  ultimately show ?thesis using Tick by simp
next
  case (GetNext now)
  assume "distinct (map fst (models r))"
  with GetNext show ?thesis by (simp add: models_getNextModel)
qed

lemma distinct_run_events:
  "distinct (map fst (models r)) \<Longrightarrow> distinct (map fst (models (run_events es r)))"
  unfolding run_events_def
  by (induction es arbitrary: r) (simp_all add: distinct_apply_event)

lemma distinct_reachable:
  "distinct (map fst (models (run_events es (ModelRotator_new ms))))"
  by (rule distinct_run_events) (simp add: ModelRotator_new_def distinct_fold_update)

lemma on_stats_nonneg: "0 \<le> recentErrors st \<Longrightarrow> 0 \<le> recentErrors (on_stats m e st)"
  by (cases e) (auto simp: record_stats_def decay_stats_def Let_def)

lemma fold_on_stats_nonneg:
  "0 \<le> recentErrors st \<Longrightarrow> 0 \<le> recentErrors (fold (on_stats m) es st)"
  by (induction es arbitrary: st) (simp_all add: on_stats_nonneg)

lemma errors_nonneg_reachable:
  "stats_of (run_events es (ModelRotator_new ms)) m = Some st \<Longrightarrow> 0 \<le> recentErrors st"
  by (auto simp: stats_of_run_events stats_of_new fresh_stats_def
           intro!: fold_on_stats_nonneg split: if_splits)

lemma scan_available:
  "scan now r is = Returns (Some (model, idx)) \<Longrightarrow>
   \<exists>stats. stats_of r model = Some stats \<and> isAvailable stats"
  by (induction "is") (auto simp: Let_def stats_of_def split: option.splits if_splits)

lemma least_step_mono:
  "snd a = Some v \<Longrightarrow> \<exists>w. snd (least_step y a) = Some w \<and> w \<le> v"
  by (cases a; cases y) (auto simp: least_step_def)

lemma fold_least_step_mono:
  "snd a = Some v \<Longrightarrow> \<exists>w. snd (fold least_step ys a) = Some w \<and> w \<le> v"
proof (induction ys arbitrary: a v)
  case Nil
  then show ?case by simp
next
  case (Cons y ys)
  from least_step_mono [OF Cons.prems, of y]
  obtain v' where v': "snd (least_step y a) = Some v'" "v' \<le> v" by blast
  from Cons.IH [OF v'(1)] v'(2) show ?case by fastforce
qed

lemma least_step_here:
  "\<exists>w. snd (least_step (m, s) acc) = Some w \<and> w \<le> recentErrors s"
  by (cases acc) (auto simp: least_step_def split: option.splits)

lemma least_step_bound:
  "(m, s) \<in> set xs \<Longrightarrow>
   \<exists>v. snd (fold least_step xs acc) = Some v \<and> v \<le> recentErrors s"
proof (induction xs arbitrary: acc)
  case Nil
  then show ?case by simp
next
  case (Cons x xs)
  show ?case
  proof (cases "(m, s) = x")
    case True
    from least_step_here [of m s acc]
    obtain v' where v': "snd (least_step x acc) = Some v'" "v' \<le> recentErrors s"
      using True by blast
    from fold_least_step_mono [OF v'(1), of xs] v'(2) show ?thesis by fastforce
  next
    case False
    with Cons.prems have "(m, s) \<in> set xs" by auto
    from Cons.IH [OF this, of "least_step x acc"] show ?thesis by simp
  qed
qed

lemma least_step_origin:
  "fold least_step xs acc = acc
   \<or> (\<exists>m s. (m, s) \<in> set xs \<and> fold least_step xs acc = (Some m, Some (recentErrors s)))"
proof (induction xs arbitrary: acc)
  case Nil
  then show ?case by simp
next
  case (Cons x xs)
  from Cons.IH [of "least_step x acc"] show ?case
  proof
    assume same: "fold least_step xs (least_step x acc) = least_step x acc"
    show ?thesis
    proof (cases "least_step x acc = acc")
      case True
      with same show ?thesis by simp
    next
      case False
      then have "least_step x acc = (Some (fst x), Some (recentErrors (snd x)))"
        by (cases x; cases acc) (auto simp: least_step_def split: if_splits)
      with same show ?thesis by (cases x) auto
    qed
  next
    assume "\<exists>m s. (m, s) \<in> set xs
              \<and> fold least_step xs (least_step x acc) = (Some m, Some (recentErrors s))"
    then show ?thesis by auto
  qed
qed

lemma least_errors_not_worse:
  assumes d: "distinct (map fst (models r))"
      and best: "least_errors r = Some b"
      and alt: "stats_of r a = Some sa"
  shows "\<exists>sb. stats_of r b = Some sb \<and> recentErrors sb \<le> recentErrors sa"
proof -
  let ?acc = "(case modelList r of [] \<Rightarrow> None | m # _ \<Rightarrow> Some m, None :: rat option)"
  have ina: "(a, sa) \<in> set (models r)"
    using alt by (simp add: stats_of_def map_of_SomeD)
  from least_step_bound [OF ina, of ?acc]
  obtain v where v: "snd (fold least_step (models r) ?acc) = Some v" "v \<le> recentErrors sa"
    by blast
  from least_step_origin [of "models r" ?acc] v(1)
  obtain m s where ms: "(m, s) \<in> set (models r)"
      "fold least_step (models r) ?acc = (Some m, Some (recentErrors s))"
    by auto
  from ms(2) best have "m = b" by (simp add: least_errors_def)
  moreover from ms(2) v have "recentErrors s \<le> recentErrors sa" by simp
  moreover from d ms(1) have "stats_of r m = Some s" by (simp add: stats_of_def)
  ultimately show ?thesis by auto
qed

lemma getNextModel_skips_quarantined:
  assumes d: "distinct (map fst (models r))"
      and st: "stats_of r m = Some st" "\<not> isAvailable st" "3 \<le> recentErrors st"
      and alt: "stats_of r a = Some sa" "recentErrors sa < 3"
  shows "fst (getNextModel now r) \<noteq> Returns (Some m)"
proof
  assume ret: "fst (getNextModel now r) = Returns (Some m)"
  show False
  proof (cases "scan now r [0..<length (modelList r)]")
    case (Throws e)
    with ret show False by (simp add: getNextModel_def)
  next
    case (Returns res)
    show False
    proof (cases res)
      case None
      with Returns ret have "least_errors r = Some m" by (simp add: getNextModel_def)
      from least_errors_not_worse [OF d this alt(1)] st alt(2) show False by auto
    next
      case (Some p)
      obtain model idx where p: "p = (model, idx)" by (cases p)
      with Some Returns ret have "model = m" by (simp add: getNextModel_def)
      with scan_available [of now r _ model idx] Returns Some p st show False by auto
    qed
  qed
qed

lemma getNextModel_picks_current:
  assumes "stats_of r m = Some st" "isAvailable st" "now - lastRequestTime st > 1000"
      and "currentIndex r < length (modelList r)" "modelList r ! currentIndex r = m"
  shows "fst (getNextModel now r) = Returns (Some m)"
proof -
  have "0 < length (modelList r)" using assms(4) by linarith
  then have "[0..<length (modelList r)] = 0 # [Suc 0..<length (modelList r)]"
    by (rule upt_conv_Cons)
  then show ?thesis using assms
    by (simp add: getNextModel_def stats_of_def Let_def)
qed




text \<open>
  C6, as stated, fails in its second half: after three failures of the first provider and one
  decay tick the provider has count 2 and is still unavailable, and \<open>getNextModel\<close> returns
  the other provider both inside and outside its cool-down; after six successes instead of
  the tick, the provider has count 0, is still unavailable and is passed over by the scan.
\<close>

theorem C6_counterexample:
  "stats_of (decay_tick (run_events (replicate 3 (Record 0 claude_id False)) sentimentModelRotator))
      claude_id
     = Some \<lparr>requestCount = 3, lastRequestTime = 0, recentErrors = 2, isAvailable = False\<rparr>
   \<and> fst (getNextModel 500
        (decay_tick (run_events (replicate 3 (Record 0 claude_id False)) sentimentModelRotator)))
     = Returns (Some mistral_id)
   \<and> fst (getNextModel 5000
        (decay_tick (run_events (replicate 3 (Record 0 claude_id False)) sentimentModelRotator)))
     = Returns (Some mistral_id)
   \<and> stats_of (run_events (replicate 3 (Record 0 claude_id False) @ replicate 6 (Record 0 claude_id True))
        sentimentModelRotator) claude_id
     = Some \<lparr>requestCount = 9, lastRequestTime = 0, recentErrors = 0, isAvailable = False\<rparr>
   \<and> fst (getNextModel 5000
        (run_events (replicate 3 (Record 0 claude_id False) @ replicate 6 (Record 0 claude_id True))
           sentimentModelRotator))
     = Returns (Some mistral_id)"
  by code_simp

text \<open>
  C6 (amended): in every rotator state reached from the constructor, three consecutive
  failures of a known provider \<open>m\<close> leave it quarantined (unavailable, count at least 3);
  while \<open>m\<close> is quarantined \<open>getNextModel\<close> never returns it as long as some provider with
  a count below 3 exists; \<open>m\<close> becomes available again at the first decay tick that finds its
  count at most 1, that is after enough ticks and successes followed by a tick (three ticks,
  or four successes and one tick, from a count of 3); an available \<open>m\<close> is returned when the
  scan starts at it after its one-second cool-down.
\<close>

theorem C6_quarantine_until_decay:
  assumes reach: "r = run_events es (ModelRotator_new ms)"
      and known: "m \<in> set ms"
      and r3: "r3 = run_events [Record t1 m False, Record t2 m False, Record t3 m False] r"
  shows "quarantined m r3
       \<and> (\<forall>es' now a sa.
             quarantined m (run_events es' r3)
             \<and> stats_of (run_events es' r3) a = Some sa \<and> recentErrors sa < 3
             \<longrightarrow> fst (getNextModel now (run_events es' r3)) \<noteq> Returns (Some m))
       \<and> (\<forall>es1 es2 e3.
             (\<forall>e \<in> set (es1 @ es2). \<not> is_failure_of m e)
             \<and> errors_of r3 m = Some e3
             \<and> e3 \<le> 1 + of_nat (ticks es1) + of_nat (successes m es1) / 2
             \<longrightarrow> recovered m (run_events (es1 @ Tick # es2) r3))
       \<and> (\<forall>es' now st'.
             stats_of (run_events es' r3) m = Some st' \<and> isAvailable st'
             \<and> 1000 < now - lastRequestTime st'
             \<and> currentIndex (run_events es' r3) < length (modelList (run_events es' r3))
             \<and> modelList (run_events es' r3) ! currentIndex (run_events es' r3) = m
             \<longrightarrow> fst (getNextModel now (run_events es' r3)) = Returns (Some m))"
proof (intro conjI allI impI)
  obtain st where st: "stats_of r m = Some st" "0 \<le> recentErrors st"
  proof -
    have "stats_of r m \<noteq> None"
      using known by (simp add: reach stats_of_run_events stats_of_new)
    then obtain st where "stats_of r m = Some st" by auto
    moreover from this have "0 \<le> recentErrors st"
      unfolding reach by (rule errors_nonneg_reachable)
    ultimately show ?thesis using that by blast
  qed
  show "quarantined m r3"
    using st three_failures_stats [OF st(2), of t3 t2 t1]
    by (simp add: quarantined_def r3 stats_of_run_events)
next
  fix es' now a sa
  assume h: "quarantined m (run_events es' r3)
             \<and> stats_of (run_events es' r3) a = Some sa \<and> recentErrors sa < 3"
  have eq: "run_events es' r3
              = run_events (es @ [Record t1 m False, Record t2 m False, Record t3 m False] @ es')
                  (ModelRotator_new ms)"
    by (simp add: r3 reach run_events_def)
  have d: "distinct (map fst (models (run_events es' r3)))"
    unfolding eq by (rule distinct_reachable)
  from h obtain st' where "stats_of (run_events es' r3) m = Some st'"
      "\<not> isAvailable st'" "3 \<le> recentErrors st'"
    by (auto simp: quarantined_def split: option.splits)
  from getNextModel_skips_quarantined [OF d this] h
  show "fst (getNextModel now (run_events es' r3)) \<noteq> Returns (Some m)" by blast
next
  fix es1 es2 e3
  assume h: "(\<forall>e \<in> set (es1 @ es2). \<not> is_failure_of m e)
             \<and> errors_of r3 m = Some e3
             \<and> e3 \<le> 1 + of_nat (ticks es1) + of_nat (successes m es1) / 2"
  then obtain st3 where st3: "stats_of r3 m = Some st3" "recentErrors st3 = e3"
    by (auto simp: errors_of_def)
  from h have nf1: "\<forall>e \<in> set es1. \<not> is_failure_of m e"
        and nf2: "\<forall>e \<in> set es2. \<not> is_failure_of m e"
    by auto
  from h st3 have b: "recentErrors st3 \<le> 1 + of_nat (ticks es1) + of_nat (successes m es1) / 2"
    by simp
  from recovery_stats [OF nf1 nf2 b] st3
  show "recovered m (run_events (es1 @ Tick # es2) r3)"
    by (simp add: recovered_def stats_of_run_events)
next
  fix es' now st'
  assume "stats_of (run_events es' r3) m = Some st' \<and> isAvailable st'
             \<and> 1000 < now - lastRequestTime st'
             \<and> currentIndex (run_events es' r3) < length (modelList (run_events es' r3))
             \<and> modelList (run_events es' r3) ! currentIndex (run_events es' r3) = m"
  then show "fst (getNextModel now (run_events es' r3)) = Returns (Some m)"
    using getNextModel_picks_current [of "run_events es' r3" m st' now] by blast
qed

theorem C6_quarantine_until_decay_witness:
  "quarantined claude_id (run_events (replicate 3 (Record 0 claude_id False)) sentimentModelRotator)
   \<and> fst (getNextModel 5000 (run_events (replicate 3 (Record 0 claude_id False)) sentimentModelRotator))
       \<noteq> Returns (Some claude_id)
   \<and> recovered claude_id
       (run_events ([Tick, Tick] @ Tick # [])
          (run_events (replicate 3 (Record 0 claude_id False)) sentimentModelRotator))
   \<and> recovered claude_id
       (run_events (replicate 4 (Record 0 claude_id True) @ Tick # [])
          (run_events (replicate 3 (Record 0 claude_id False)) sentimentModelRotator))
   \<and> fst (getNextModel 5000
        (run_events ([Tick, Tick, Tick])
          (run_events (replicate 3 (Record 0 claude_id False)) sentimentModelRotator)))
       = Returns (Some claude_id)"
proof -
  let ?r3 = "run_events (replicate 3 (Record 0 claude_id False)) sentimentModelRotator"
  have reach: "sentimentModelRotator = run_events [] (ModelRotator_new [claude_id, mistral_id])"
    by (simp add: sentimentModelRotator_def run_events_def)
  have known: "claude_id \<in> set [claude_id, mistral_id]" by simp
  have r3: "?r3 = run_events [Record 0 claude_id False, Record 0 claude_id False,
                              Record 0 claude_id False] sentimentModelRotator"
    by (simp add: numeral_3_eq_3)
  note inst = C6_quarantine_until_decay [OF reach known r3]
  have p1: "quarantined claude_id ?r3" using inst by (rule conjunct1)
  have noop: "run_events [] ?r3 = ?r3" by (simp add: run_events_def)
  have alt: "stats_of (run_events [] ?r3) mistral_id = Some fresh_stats
             \<and> recentErrors fresh_stats < 3"
    by code_simp
  have p1': "quarantined claude_id (run_events [] ?r3)" using p1 by (simp only: noop)
  have "fst (getNextModel 5000 (run_events [] ?r3)) \<noteq> Returns (Some claude_id)"
    using inst [THEN conjunct2, THEN conjunct1] p1' alt by blast
  then have p2: "fst (getNextModel 5000 ?r3) \<noteq> Returns (Some claude_id)"
    unfolding noop .
  have e3: "errors_of ?r3 claude_id = Some 3" by code_simp
  have nf3: "\<forall>e \<in> set ([Tick, Tick] @ []). \<not> is_failure_of claude_id e" by simp
  have b3: "(3::rat) \<le> 1 + of_nat (ticks [Tick, Tick]) + of_nat (successes claude_id [Tick, Tick]) / 2"
    by (simp add: ticks_def successes_def)
  have p3: "recovered claude_id (run_events ([Tick, Tick] @ Tick # []) ?r3)"
    using inst [THEN conjunct2, THEN conjunct2, THEN conjunct1] e3 nf3 b3 by blast
  have nf4: "\<forall>e \<in> set (replicate 4 (Record 0 claude_id True) @ []). \<not> is_failure_of claude_id e"
    by simp
  have b4: "(3::rat) \<le> 1 + of_nat (ticks (replicate 4 (Record 0 claude_id True)))
                      + of_nat (successes claude_id (replicate 4 (Record 0 claude_id True))) / 2"
    by (simp add: ticks_def successes_def)
  have p4: "recovered claude_id (run_events (replicate 4 (Record 0 claude_id True) @ Tick # []) ?r3)"
    using inst [THEN conjunct2, THEN conjunct2, THEN conjunct1] e3 nf4 b4 by blast
  let ?r6 = "run_events [Tick, Tick, Tick] ?r3"
  let ?st6 = "\<lparr>requestCount = 3, lastRequestTime = 0, recentErrors = 0, isAvailable = True\<rparr>"
  have st: "stats_of ?r6 claude_id = Some ?st6 \<and> isAvailable ?st6
            \<and> 1000 < 5000 - lastRequestTime ?st6
            \<and> currentIndex ?r6 < length (modelList ?r6)
            \<and> modelList ?r6 ! currentIndex ?r6 = claude_id"
    by code_simp
  have p5: "fst (getNextModel 5000 ?r6) = Returns (Some claude_id)"
    using inst [THEN conjunct2, THEN conjunct2, THEN conjunct2] st by blast
  from p1 p2 p3 p4 p5 show ?thesis by blast
qed

section \<open>Batch sizing: results\<close>

text \<open>
  C8: the claim holds for every non-empty list (\<open>batch_size_in_range\<close> below) and fails on
  the empty list, where the average is \<open>0 / 0\<close> and \<open>NaN\<close> passes through both clamps.
\<close>

theorem C8_empty_list: "getOptimalBatchSize [] = NaN \<and> getOptimalBatchSize_25 [] = NaN"
  by (simp add: getOptimalBatchSize_def getOptimalBatchSize_25_def total_length_def)

text \<open>
  For every non-empty list, very short and very long texts included, both variants return a
  finite value inside their clamp range.
\<close>

lemma clamp_finite:
  "lo \<le> hi \<Longrightarrow> x \<noteq> NaN \<Longrightarrow> \<exists>n. js_max (Num lo) (js_min (Num hi) x) = Num n \<and> lo \<le> n \<and> n \<le> hi"
  by (cases x) auto

lemma optimal_size_not_NaN:
  assumes "texts \<noteq> []"
  shows "js_floor (js_div (Num 10000)
           (js_ceil (js_div (js_div (Num (of_nat (total_length texts))) (Num (of_nat (length texts))))
                            (Num 4)))) \<noteq> NaN"
proof -
  from assms have "of_nat (length texts) \<noteq> (0::rat)" by simp
  then obtain a where a: "js_div (Num (of_nat (total_length texts))) (Num (of_nat (length texts))) = Num a"
    by simp
  obtain b where b: "js_ceil (js_div (Num a) (Num 4)) = Num b" by simp
  have "js_div (Num 10000) (Num b) \<noteq> NaN" by simp
  then have "js_floor (js_div (Num 10000) (Num b)) \<noteq> NaN"
    by (cases "js_div (Num 10000) (Num b)") simp_all
  with a b show ?thesis by metis
qed

theorem batch_size_in_range:
  assumes "texts \<noteq> []"
  shows "(\<exists>n. getOptimalBatchSize texts = Num n \<and> 5 \<le> n \<and> n \<le> 10)
       \<and> (\<exists>n. getOptimalBatchSize_25 texts = Num n \<and> 5 \<le> n \<and> n \<le> 25)"
  using clamp_finite [OF _ optimal_size_not_NaN [OF assms], of 5 10]
        clamp_finite [OF _ optimal_size_not_NaN [OF assms], of 5 25]
  by (simp add: getOptimalBatchSize_def getOptimalBatchSize_25_def Let_def)

theorem batch_size_in_range_witness:
  "(\<exists>n. getOptimalBatchSize [''great product'', ''''] = Num n \<and> 5 \<le> n \<and> n \<le> 10)
   \<and> (\<exists>n. getOptimalBatchSize_25 [''great product'', ''''] = Num n \<and> 5 \<le> n \<and> n \<le> 25)"
  using batch_size_in_range [of "[''great product'', '''']"] by simp

section \<open>Sentiment aggregation: results\<close>

lemma counts_fold:
  "sentimentCounts (fold aggregate_step results
      \<lparr>sentimentCounts = [(positive, a), (negative, b), (neutral, c), (mixed, d)],
       totalScore = x, totalConfidence = y\<rparr>)
   = [(positive, a + count_of results positive), (negative, b + count_of results negative),
      (neutral, c + count_of results neutral), (mixed, d + count_of results mixed)]"
proof (induction results arbitrary: a b c d x y)
  case Nil
  then show ?case by (simp add: count_of_def)
next
  case (Cons r rs)
  let ?acc = "\<lparr>sentimentCounts = [(positive, a), (negative, b), (neutral, c), (mixed, d)],
               totalScore = x, totalConfidence = y\<rparr>"
  have step: "aggregate_step r ?acc =
      \<lparr>sentimentCounts = [(positive, a + count_of [r] positive), (negative, b + count_of [r] negative),
                           (neutral, c + count_of [r] neutral), (mixed, d + count_of [r] mixed)],
       totalScore = x + score r, totalConfidence = y + confidence r\<rparr>"
    by (cases "sentiment r") (simp_all add: aggregate_step_def increment_def count_of_def)
  have split: "\<And>k. count_of (r # rs) k = count_of [r] k + count_of rs k"
    by (simp add: count_of_def)
  have "fold aggregate_step (r # rs) ?acc = fold aggregate_step rs (aggregate_step r ?acc)"
    by simp
  then show ?case
    by (simp only: step Cons.IH split add.assoc)
qed

lemma counts_aggregate:
  "sentimentCounts (fold aggregate_step results aggregation_start)
   = [(positive, count_of results positive), (negative, count_of results negative),
      (neutral, count_of results neutral), (mixed, count_of results mixed)]"
  using counts_fold [of results 0 0 0 0 0 0] by (simp add: aggregation_start_def)

lemma dominant_four:
  "dominant [(positive, a), (negative, b), (neutral, c), (mixed, d)] =
     (if b \<le> a \<and> c \<le> a \<and> d \<le> a then positive
      else if c \<le> b \<and> d \<le> b then negative
      else if d \<le> c then neutral
      else mixed)"
  by (simp add: dominant_def)

text \<open>
  C9: for every non-empty list of per-item results the aggregation returns; its dominant
  category has the greatest count of the distribution, and among the categories with that
  count it is the first in the order positive, negative, neutral, mixed. The distribution
  holds the number of results of each category.
\<close>

theorem C9_dominant_category:
  assumes "results \<noteq> []"
  shows "\<exists>a. aggregate results = Some a
           \<and> (\<forall>c. count_of results c \<le> count_of results (overall_sentiment a))
           \<and> (\<forall>c. count_of results c = count_of results (overall_sentiment a)
                  \<longrightarrow> rank (overall_sentiment a) \<le> rank c)
           \<and> sentiment_distribution a
               = map (\<lambda>c. (c, count_of results c)) [positive, negative, neutral, mixed]"
proof -
  let ?d = "dominant (sentimentCounts (fold aggregate_step results aggregation_start))"
  have d: "?d = (if count_of results negative \<le> count_of results positive
                    \<and> count_of results neutral \<le> count_of results positive
                    \<and> count_of results mixed \<le> count_of results positive then positive
                 else if count_of results neutral \<le> count_of results negative
                    \<and> count_of results mixed \<le> count_of results negative then negative
                 else if count_of results mixed \<le> count_of results neutral then neutral
                 else mixed)"
    by (simp only: counts_aggregate dominant_four)
  have max: "\<And>c. count_of results c \<le> count_of results ?d"
  proof -
    fix c show "count_of results c \<le> count_of results ?d"
      unfolding d by (cases c) (auto split: if_splits)
  qed
  have tie: "\<And>c. count_of results c = count_of results ?d \<Longrightarrow> rank ?d \<le> rank c"
  proof -
    fix c assume "count_of results c = count_of results ?d"
    then show "rank ?d \<le> rank c"
      unfolding d by (cases c) (auto split: if_splits)
  qed
  show ?thesis
    using assms max tie by (simp add: aggregate_def Let_def counts_aggregate)
qed

theorem C9_dominant_category_witness:
  "\<exists>a. aggregate [\<lparr>sentiment = neutral, score = 1/2, confidence = 1/2\<rparr>,
                   \<lparr>sentiment = negative, score = 1/5, confidence = 9/10\<rparr>] = Some a
       \<and> overall_sentiment a = negative"
proof -
  let ?rs = "[\<lparr>sentiment = neutral, score = 1/2, confidence = 1/2\<rparr>,
              \<lparr>sentiment = negative, score = 1/5, confidence = 9/10\<rparr>]"
  have ne: "?rs \<noteq> []" by simp
  from C9_dominant_category [OF ne] obtain a where a: "aggregate ?rs = Some a" by blast
  moreover have "overall_sentiment (the (aggregate ?rs)) = negative" by code_simp
  ultimately show ?thesis by simp
qed

section \<open>Rate-limited queue: results\<close>

declare follow.simps [simp del]

lemma attempt_Requeue:
  "attempt opts item = Requeue d item' \<longleftrightarrow>
     (\<exists>e. fn item (retries item) = Fail e \<and> isRateLimitError e
          \<and> retries item < maxRetries opts
          \<and> d = retryDelay opts * backoffMultiplier opts ^ retries item
          \<and> item' = item\<lparr>retries := Suc (retries item)\<rparr>)"
  by (auto simp: attempt_def Let_def split: attempt_result.splits)

lemma attempt_Reject:
  "attempt opts item = Reject e \<longleftrightarrow>
     (fn item (retries item) = Fail e
      \<and> \<not> (isRateLimitError e \<and> retries item < maxRetries opts))"
  by (auto simp: attempt_def Let_def split: attempt_result.splits)

lemma follow_delays:
  "fst (follow opts item)
     = map (\<lambda>k. retryDelay opts * backoffMultiplier opts ^ k)
           [retries item ..< retries item + length (fst (follow opts item))]
   \<and> (retries item \<le> maxRetries opts
        \<longrightarrow> retries item + length (fst (follow opts item)) \<le> maxRetries opts)"
proof (induction opts item rule: follow.induct)
  case (1 opts item)
  show ?case
  proof (cases "attempt opts item")
    case (Resolve result)
    then show ?thesis by (simp add: follow.simps [of opts item])
  next
    case (Reject error)
    then show ?thesis by (simp add: follow.simps [of opts item])
  next
    case (Requeue d item')
    then have r: "retries item < maxRetries opts" "retries item' = Suc (retries item)"
        "d = retryDelay opts * backoffMultiplier opts ^ retries item"
      by (auto simp: attempt_Requeue)
    let ?n = "length (fst (follow opts item'))"
    from "1.IH" [OF Requeue] r
    have ih: "fst (follow opts item')
                = map (\<lambda>k. retryDelay opts * backoffMultiplier opts ^ k)
                      [Suc (retries item) ..< Suc (retries item) + ?n]"
         "Suc (retries item) + ?n \<le> maxRetries opts"
      by auto
    have f: "fst (follow opts item) = d # fst (follow opts item')"
      using Requeue by (simp add: follow.simps [of opts item])
    have "retries item < retries item + Suc ?n" by simp
    from upt_conv_Cons [OF this]
    have "[retries item ..< retries item + Suc ?n]
            = retries item # [Suc (retries item) ..< Suc (retries item) + ?n]"
      by simp
    then have "map (\<lambda>k. retryDelay opts * backoffMultiplier opts ^ k)
                 [retries item ..< retries item + length (fst (follow opts item))]
               = d # fst (follow opts item')"
      using ih(1) r(3) by (simp add: f)
    with f ih(2) show ?thesis by simp
  qed
qed

lemma follow_all_throttled:
  assumes "\<forall>k. retries item \<le> k \<and> k \<le> maxRetries opts
              \<longrightarrow> (\<exists>e. fn item k = Fail e \<and> isRateLimitError e)"
      and "retries item \<le> maxRetries opts"
  shows "\<exists>e. fn item (maxRetries opts) = Fail e
           \<and> follow opts item
               = (map (\<lambda>k. retryDelay opts * backoffMultiplier opts ^ k)
                      [retries item ..< maxRetries opts], Rejected e)"
  using assms
proof (induction opts item rule: follow.induct)
  case (1 opts item)
  from "1.prems" obtain e0 where e0: "fn item (retries item) = Fail e0" "isRateLimitError e0"
    by blast
  show ?case
  proof (cases "retries item < maxRetries opts")
    case True
    let ?item' = "item\<lparr>retries := Suc (retries item)\<rparr>"
    let ?d = "retryDelay opts * backoffMultiplier opts ^ retries item"
    have a: "attempt opts item = Requeue ?d ?item'"
      using e0 True by (simp add: attempt_Requeue)
    have "\<exists>e. fn ?item' (maxRetries opts) = Fail e
           \<and> follow opts ?item'
               = (map (\<lambda>k. retryDelay opts * backoffMultiplier opts ^ k)
                      [retries ?item' ..< maxRetries opts], Rejected e)"
      using "1.prems" True by (intro "1.IH" [OF a]) auto
    then obtain e where e: "fn item (maxRetries opts) = Fail e"
        "follow opts ?item'
           = (map (\<lambda>k. retryDelay opts * backoffMultiplier opts ^ k)
                  [Suc (retries item) ..< maxRetries opts], Rejected e)"
      by auto
    have "follow opts item
            = (?d # map (\<lambda>k. retryDelay opts * backoffMultiplier opts ^ k)
                        [Suc (retries item) ..< maxRetries opts], Rejected e)"
      using a e(2) by (simp add: follow.simps [of opts item])
    moreover have "[retries item ..< maxRetries opts]
                     = retries item # [Suc (retries item) ..< maxRetries opts]"
      using True by (simp add: upt_conv_Cons)
    ultimately show ?thesis using e(1) by simp
  next
    case False
    with "1.prems" have eq: "retries item = maxRetries opts" by simp
    have "attempt opts item = Reject e0"
      using e0 False by (simp add: attempt_Reject)
    then have "follow opts item = ([], Rejected e0)"
      by (simp add: follow.simps [of opts item])
    with e0 eq show ?thesis by simp
  qed
qed

lemma process_step_dequeues:
  assumes "perSecond s < maxRequestsPerSecond (options s)"
      and "perMinute s < maxRequestsPerMinute (options s)"
      and "queue s = item # rest"
  shows "fst (process_step s) =
     (let s1 = s\<lparr>queue := rest, perSecond := perSecond s + 1, perMinute := perMinute s + 1\<rparr>
      in case attempt (options s) item of
           Resolve result \<Rightarrow> s1\<lparr>settled := settled s @ [(item_id item, Resolved result)]\<rparr>
         | Requeue delay item' \<Rightarrow> s1\<lparr>timers := timers s @ [(delay, item')]\<rparr>
         | Reject error \<Rightarrow> s1\<lparr>settled := settled s @ [(item_id item, Rejected error)]\<rparr>)"
  using assms by (simp add: process_step_def Let_def split: disposition.splits)

text \<open>
  C7: when the operation at the head of the queue fails within budget, a throttling error
  with retries left schedules the item, its retry counter incremented, for a re-queue after
  \<open>retryDelay * backoffMultiplier ^ n\<close> milliseconds, \<open>n\<close> being the number of retries already
  made, and the timer puts it at the front of the queue; any other failure (a non-throttling
  error, or a throttling error with \<open>maxRetries\<close> retries made) rejects the promise with that
  very error and schedules nothing. Over its life an item is re-queued at most \<open>maxRetries\<close>
  times, the delays being \<open>retryDelay * backoffMultiplier ^ k\<close> for \<open>k = 0, 1, ...\<close>, and
  an item that is throttled at every call is rejected with the error of its last call after
  exactly \<open>maxRetries\<close> re-queues.
\<close>

theorem C7_throttling_retry:
  assumes "perSecond s < maxRequestsPerSecond (options s)"
      and "perMinute s < maxRequestsPerMinute (options s)"
      and "queue s = item # rest"
      and "fn item (retries item) = Fail error"
  shows "(isRateLimitError error \<and> retries item < maxRetries (options s) \<longrightarrow>
            fst (process_step s)
              = s\<lparr>queue := rest, perSecond := perSecond s + 1, perMinute := perMinute s + 1,
                  timers := timers s @
                    [(retryDelay (options s) * backoffMultiplier (options s) ^ retries item,
                      item\<lparr>retries := retries item + 1\<rparr>)]\<rparr>)
       \<and> (\<not> (isRateLimitError error \<and> retries item < maxRetries (options s)) \<longrightarrow>
            fst (process_step s)
              = s\<lparr>queue := rest, perSecond := perSecond s + 1, perMinute := perMinute s + 1,
                  settled := settled s @ [(item_id item, Rejected error)]\<rparr>)
       \<and> (\<forall>t s'. queue (fire_timer t (s' :: 'a RateLimiter)) = snd t # queue s')
       \<and> (retries item = 0 \<longrightarrow>
            length (fst (follow (options s) item)) \<le> maxRetries (options s)
            \<and> fst (follow (options s) item)
                = map (\<lambda>k. retryDelay (options s) * backoffMultiplier (options s) ^ k)
                      [0 ..< length (fst (follow (options s) item))])
       \<and> (retries item = 0
            \<and> (\<forall>k. k \<le> maxRetries (options s) \<longrightarrow> (\<exists>e. fn item k = Fail e \<and> isRateLimitError e))
            \<longrightarrow> (\<exists>e. fn item (maxRetries (options s)) = Fail e
                   \<and> follow (options s) item
                       = (map (\<lambda>k. retryDelay (options s) * backoffMultiplier (options s) ^ k)
                              [0 ..< maxRetries (options s)], Rejected e)))"
proof (intro conjI impI allI)
  assume "isRateLimitError error \<and> retries item < maxRetries (options s)"
  then have "attempt (options s) item
               = Requeue (retryDelay (options s) * backoffMultiplier (options s) ^ retries item)
                         (item\<lparr>retries := Suc (retries item)\<rparr>)"
    using assms(4) by (simp add: attempt_Requeue)
  then show "fst (process_step s)
              = s\<lparr>queue := rest, perSecond := perSecond s + 1, perMinute := perMinute s + 1,
                  timers := timers s @
                    [(retryDelay (options s) * backoffMultiplier (options s) ^ retries item,
                      item\<lparr>retries := retries item + 1\<rparr>)]\<rparr>"
    by (simp add: process_step_dequeues [OF assms(1-3)])
next
  assume "\<not> (isRateLimitError error \<and> retries item < maxRetries (options s))"
  then have "attempt (options s) item = Reject error"
    using assms(4) by (simp add: attempt_Reject)
  then show "fst (process_step s)
              = s\<lparr>queue := rest, perSecond := perSecond s + 1, perMinute := perMinute s + 1,
                  settled := settled s @ [(item_id item, Rejected error)]\<rparr>"
    by (simp add: process_step_dequeues [OF assms(1-3)])
next
  fix t and s' :: "'a RateLimiter"
  show "queue (fire_timer t s') = snd t # queue s'" by (simp add: fire_timer_def)
next
  assume z: "retries item = 0"
  from follow_delays [of "options s" item] z
  show "length (fst (follow (options s) item)) \<le> maxRetries (options s)" by simp
  from follow_delays [of "options s" item] z
  show "fst (follow (options s) item)
          = map (\<lambda>k. retryDelay (options s) * backoffMultiplier (options s) ^ k)
                [0 ..< length (fst (follow (options s) item))]"
    by simp
next
  assume h: "retries item = 0
            \<and> (\<forall>k. k \<le> maxRetries (options s) \<longrightarrow> (\<exists>e. fn item k = Fail e \<and> isRateLimitError e))"
  then have "\<forall>k. retries item \<le> k \<and> k \<le> maxRetries (options s)
                \<longrightarrow> (\<exists>e. fn item k = Fail e \<and> isRateLimitError e)"
    by simp
  from follow_all_throttled [OF this] h
  show "\<exists>e. fn item (maxRetries (options s)) = Fail e
           \<and> follow (options s) item
               = (map (\<lambda>k. retryDelay (options s) * backoffMultiplier (options s) ^ k)
                      [0 ..< maxRetries (options s)], Rejected e)"
    by simp
qed

theorem C7_throttling_retry_witness:
  "timers (fst (process_step (execute ''op'' (\<lambda>k. Fail throttled)
                                (bedrockRateLimiter :: nat RateLimiter))))
     = [(2000, \<lparr>item_id = ''op'', fn = (\<lambda>k. Fail throttled), retries = 1\<rparr>)]
   \<and> follow bedrock_options \<lparr>item_id = ''op'', fn = (\<lambda>k. Fail throttled), retries = 0\<rparr>
     = ([2000, 4000, 8000], Rejected throttled :: nat settlement)
   \<and> settled (fst (process_step (execute ''op''
                 (\<lambda>k. Fail \<lparr>message = Some ''Access denied'', statusCode = Some 403\<rparr>)
                 (bedrockRateLimiter :: nat RateLimiter))))
     = [(''op'', Rejected \<lparr>message = Some ''Access denied'', statusCode = Some 403\<rparr>)]"
proof -
  let ?item = "\<lparr>item_id = ''op'', fn = (\<lambda>k. Fail throttled), retries = 0\<rparr> :: nat QueueItem"
  let ?s = "execute ''op'' (\<lambda>k. Fail throttled) (bedrockRateLimiter :: nat RateLimiter)"
  have o: "options ?s = bedrock_options"
    by (simp add: execute_def bedrockRateLimiter_def RateLimiter_new_def)
  have b1: "perSecond ?s < maxRequestsPerSecond (options ?s)"
   and b2: "perMinute ?s < maxRequestsPerMinute (options ?s)"
   and q: "queue ?s = ?item # []"
    by (simp_all add: execute_def bedrockRateLimiter_def RateLimiter_new_def bedrock_options_def)
  have f: "fn ?item (retries ?item) = Fail throttled" by simp
  have thr: "isRateLimitError throttled" by code_simp
  note inst = C7_throttling_retry [OF b1 b2 q f]
  have p1: "timers (fst (process_step ?s)) = [(2000, \<lparr>item_id = ''op'', fn = (\<lambda>k. Fail throttled), retries = 1\<rparr>)]"
    using inst [THEN conjunct1] thr
    by (simp add: o) (simp add: bedrock_options_def execute_def bedrockRateLimiter_def RateLimiter_new_def)
  have "\<exists>e. fn ?item (maxRetries (options ?s)) = Fail e
           \<and> follow (options ?s) ?item
               = (map (\<lambda>k. retryDelay (options ?s) * backoffMultiplier (options ?s) ^ k)
                      [0 ..< maxRetries (options ?s)], Rejected e)"
    using inst [THEN conjunct2, THEN conjunct2, THEN conjunct2, THEN conjunct2] thr by simp
  then have p2: "follow bedrock_options ?item = ([2000, 4000, 8000], Rejected throttled)"
    by (simp add: o) (simp add: bedrock_options_def upt_rec)
  let ?denied = "\<lparr>message = Some ''Access denied'', statusCode = Some 403\<rparr>"
  let ?item' = "\<lparr>item_id = ''op'', fn = (\<lambda>k. Fail ?denied), retries = 0\<rparr> :: nat QueueItem"
  let ?s' = "execute ''op'' (\<lambda>k. Fail ?denied) (bedrockRateLimiter :: nat RateLimiter)"
  have b1': "perSecond ?s' < maxRequestsPerSecond (options ?s')"
   and b2': "perMinute ?s' < maxRequestsPerMinute (options ?s')"
   and q': "queue ?s' = ?item' # []"
    by (simp_all add: execute_def bedrockRateLimiter_def RateLimiter_new_def bedrock_options_def)
  have f': "fn ?item' (retries ?item') = Fail ?denied" by simp
  have nthr: "\<not> isRateLimitError ?denied" by code_simp
  have p3: "settled (fst (process_step ?s')) = [(''op'', Rejected ?denied)]"
    using C7_throttling_retry [OF b1' b2' q' f', THEN conjunct2, THEN conjunct1] nthr
    by (simp add: execute_def bedrockRateLimiter_def RateLimiter_new_def)
  from p1 p2 p3 show ?thesis by blast
qed

section \<open>Workflow: results\<close>



declare decimal.simps [simp del]



lemma workflow_fails_with_persistence:
  assumes "saveToDatabase act \<lparr>collection = ''startup_analyses'',
                               data = collect_results act now input\<rparr> = Throws m"
  shows "startupAnalysisWorkflow act now input = Throws m"
  using assms by (simp add: startupAnalysisWorkflow_def Let_def)




section \<open>Batch sentiment engine: results\<close>

lemma analyzeBatchWithMistral_answer:
  "\<not> str_includes model ''claude'' \<Longrightarrow>
   fst (analyzeBatchWithMistral w now texts st)
     = Ok (answer_of w now texts model (sentiment_cache st))"
  by (auto simp: analyzeBatchWithMistral_def answer_of_def cached_result_def provider_outcome_def
                 cache_key_def own_placeholder_def Let_def
           split: prod.splits option.splits attempt_result.splits)

lemma analyzeBatchWithClaude_answer:
  "str_includes model ''claude'' \<Longrightarrow>
   fst (analyzeBatchWithClaude w now texts False st)
     = Ok (answer_of w now texts model (sentiment_cache st))"
  by (auto simp: analyzeBatchWithClaude_def answer_of_def cached_result_def provider_outcome_def
                 cache_key_def own_placeholder_def Let_def
           split: prod.splits option.splits attempt_result.splits)

lemma analyze_with_answer:
  "fst (analyze_with w now texts model st) = Ok (answer_of w now texts model (sentiment_cache st))"
  by (simp add: analyze_with_def analyzeBatchWithMistral_answer analyzeBatchWithClaude_answer)


















section \<open>Further properties of the engine and the queue\<close>

lemma rotator_analyze_with: "rotator (snd (analyze_with w now texts model st)) = rotator st"
  by (auto simp: analyze_with_def analyzeBatchWithClaude_def analyzeBatchWithMistral_def Let_def
           split: prod.splits option.splits attempt_result.splits)

text \<open>
  Whatever the provider does, \<open>analyzeBatchSmart\<close> reports a success for the chosen model to
  the rotator: the model-specific functions never throw, so the \<open>catch\<close> with the fall-back
  model is never entered and \<open>success\<close> is always true.
\<close>

theorem smart_always_records_success:
  assumes "getNextModel now (rotator st) = (Returns (Some nextModel), rot1)"
  shows "rotator (snd (analyzeBatchSmart w now texts st)) = recordRequest now nextModel True rot1"
proof -
  obtain st2 where a: "analyze_with w now texts nextModel (st\<lparr>rotator := rot1\<rparr>)
                         = (Ok (answer_of w now texts nextModel (sentiment_cache st)), st2)"
    using analyze_with_answer [of w now texts nextModel "st\<lparr>rotator := rot1\<rparr>"]
    by (cases "analyze_with w now texts nextModel (st\<lparr>rotator := rot1\<rparr>)") simp
  from rotator_analyze_with [of w now texts nextModel "st\<lparr>rotator := rot1\<rparr>"] a
  have "rotator st2 = rot1" by simp
  then show ?thesis by (simp add: analyzeBatchSmart_def assms a Let_def)
qed

theorem smart_always_records_success_witness:
  "stats_of (rotator (snd (analyzeBatchSmart all_down 5000 [''great product'', ''awful support'']
                             fresh_engine))) claude_id
     = Some \<lparr>requestCount = 1, lastRequestTime = 5000, recentErrors = 0, isAvailable = True\<rparr>"
proof -
  have g: "getNextModel 5000 (rotator fresh_engine)
             = (Returns (Some claude_id), (rotator fresh_engine)\<lparr>currentIndex := 1\<rparr>)"
    by code_simp
  have "stats_of (recordRequest 5000 claude_id True ((rotator fresh_engine)\<lparr>currentIndex := 1\<rparr>))
          claude_id
        = Some \<lparr>requestCount = 1, lastRequestTime = 5000, recentErrors = 0, isAvailable = True\<rparr>"
    by code_simp
  with smart_always_records_success [OF g, of all_down "[''great product'', ''awful support'']"]
  show ?thesis by simp
qed

text \<open>
  With a positive initial delay and a multiplier above one, the delays of the successive
  re-queues of an item are strictly increasing.
\<close>

theorem backoff_strictly_increasing:
  assumes "0 < retryDelay opts" and "1 < backoffMultiplier opts"
  shows "sorted_wrt (<) (fst (follow opts item))"
proof -
  let ?f = "\<lambda>k. retryDelay opts * backoffMultiplier opts ^ k"
  let ?ks = "[retries item ..< retries item + length (fst (follow opts item))]"
  have mono: "\<And>j k. j < k \<Longrightarrow> ?f j < ?f k"
    using assms by (simp add: power_strict_increasing)
  have "sorted_wrt (<) ?ks" by simp
  then have "sorted_wrt (\<lambda>j k. ?f j < ?f k) ?ks"
    by (rule sorted_wrt_mono_rel [rotated]) (simp add: mono)
  then have "sorted_wrt (<) (map ?f ?ks)" by (simp add: sorted_wrt_map)
  with follow_delays [of opts item] show ?thesis by simp
qed

theorem backoff_strictly_increasing_witness:
  "sorted_wrt (<) (fst (follow bedrock_options
      (\<lparr>item_id = ''op'', fn = (\<lambda>k. Fail throttled), retries = 0\<rparr> :: nat QueueItem)))"
proof -
  have a: "0 < retryDelay bedrock_options" and b: "1 < backoffMultiplier bedrock_options"
    by (simp_all add: bedrock_options_def)
  from backoff_strictly_increasing [OF a b] show ?thesis .
qed

end
